theory Spec2Isabelle
  imports Complex_Main "HOL-Library.AList"
begin

section \<open>Tokens (token.hpp)\<close>

datatype (plugins only: code) TokenType =
    NUMBER | STRING | TRUE | FALSE | NIL | IDENTIFIER
  | PLUS | MINUS | STAR | SLASH | PERCENT
  | BANG | BANG_EQUAL | EQUAL | EQUAL_EQUAL | GREATER | GREATER_EQUAL | LESS | LESS_EQUAL
  | AND | OR
  | LPAREN | RPAREN | LBRACE | RBRACE | LBRACKET | RBRACKET | COMMA | SEMICOLON | COLON
  | VAR | PRINT | IF | ELSE | WHILE | FOR | FUN | RETURN | LEN | HAS | KEYS | VALUES
  | SWITCH | CASE | DEFAULT | BREAK | INPUT | INPUT_NUM | READ_FILE | WRITE_FILE
  | APPEND_FILE | FILE_EXISTS | IMPORT
  | PTR | MALLOC | FREE | CALLOC | REALLOC | ADDR_OF | DEREF | AMPERSAND | ARROW
  | UNSAFE | LLVM_INLINE
  | END_OF_FILE

text \<open>
  \<open>LiteralValue\<close> is \<open>std::variant<std::monostate, double, std::string, bool>\<close>.
  The \<open>double\<close> alternative is modelled by \<open>real\<close>: rounding, infinities and NaN of
  IEEE-754 are outside the model, the structural decisions of the passes (which rule
  fires, what node is built) are not affected by them.
\<close>

datatype LiteralValue = Monostate | Number real | String string | Bool bool

record Token =
  type :: TokenType
  lexeme :: string
  literal :: LiteralValue
  line :: int
  column :: int

text \<open>The two constructors of \<open>Token\<close>: with a literal payload, and without one.\<close>

definition literal_token :: "TokenType \<Rightarrow> string \<Rightarrow> LiteralValue \<Rightarrow> int \<Rightarrow> int \<Rightarrow> Token" where
  "literal_token ty lx lit row col = \<lparr>type = ty, lexeme = lx, literal = lit, line = row, column = col\<rparr>"

definition token :: "TokenType \<Rightarrow> string \<Rightarrow> int \<Rightarrow> int \<Rightarrow> Token" where
  "token ty lx row col = \<lparr>type = ty, lexeme = lx, literal = Monostate, line = row, column = col\<rparr>"

section \<open>The abstract syntax tree (parser.hpp)\<close>

datatype Expr =
    Literal LiteralValue Token
  | Variable Token
  | Assign Token Expr
  | Binary Expr Token Expr
  | Unary Token Expr
  | Logical Expr Token Expr
  | Call Expr Token "Expr list"
  | Grouping Expr
  | ArrayLiteral "Expr list" Token
  | IndexGet Expr Expr Token
  | IndexSet Expr Expr Expr Token
  | DictLiteral "(Expr \<times> Expr) list" Token

text \<open>
  A \<open>StmtPtr\<close> may be null: \<open>ConstantFolder::fold_stmt\<close> returns \<open>nullptr\<close> for a
  dropped statement, and that pointer can be stored as the branch of an \<open>IfStmt\<close> or the
  body of a \<open>WhileStmt\<close>. \<open>NullStmt\<close> is the null pointer.
\<close>

datatype Stmt =
    ExprStmt Expr
  | PrintStmt Expr Token
  | VarStmt Token "Expr option"
  | Block "Stmt list" Token
  | IfStmt Expr Stmt "Stmt option" Token
  | WhileStmt Expr Stmt Token
  | FunctionStmt Token "Token list" "Stmt list"
  | ReturnStmt Token "Expr option"
  | BreakStmt Token
  | SwitchStmt Token Expr "CaseClause list" "Stmt list option"
  | UnsafeBlock Token "Stmt list"
  | LLVMInlineStmt Token string "(string \<times> string) list"
  | ImportStmt Token string Token
  | NullStmt
and CaseClause = CaseClause Expr "Stmt list"

text \<open>
  The nodes \<open>Parser::primary\<close> builds for a number and for a name of the source text
  (a keyword used as a callee, such as \<open>malloc\<close>, is a \<open>Variable\<close> too).
\<close>

definition number_expr :: "string \<Rightarrow> real \<Rightarrow> int \<Rightarrow> int \<Rightarrow> Expr" where
  "number_expr lx v row col = Literal (Number v) (literal_token NUMBER lx (Number v) row col)"

definition name_expr :: "TokenType \<Rightarrow> string \<Rightarrow> int \<Rightarrow> int \<Rightarrow> Expr" where
  "name_expr ty lx row col = Variable (token ty lx row col)"

section \<open>Optimizer (optimizer.cpp)\<close>

text \<open>
  Every pass object carries a flag \<open>modified\<close> that \<open>run\<close> clears and the rewriting
  functions set. The flag is only ever set, never read, while a pass runs, so each modelled
  function returns the rebuilt tree together with the value the flag has been given during
  the call.
\<close>

subsection \<open>Run-time type tests\<close>

text \<open>\<open>dynamic_cast<Literal*>(e)\<close> followed by a read of \<open>->value\<close>.\<close>

fun as_literal :: "Expr \<Rightarrow> LiteralValue option" where
  "as_literal (Literal v t) = Some v"
| "as_literal (Variable n) = None"
| "as_literal (Assign n v) = None"
| "as_literal (Binary l op r) = None"
| "as_literal (Unary op r) = None"
| "as_literal (Logical l op r) = None"
| "as_literal (Call c p args) = None"
| "as_literal (Grouping e) = None"
| "as_literal (ArrayLiteral es b) = None"
| "as_literal (IndexGet a i b) = None"
| "as_literal (IndexSet a i v b) = None"
| "as_literal (DictLiteral ps b) = None"

text \<open>
  \<open>std::fmod\<close> comes from the C library. Modelled as the remainder of the division
  truncated towards zero, which is what \<open>fmod\<close> computes (exactly) on finite operands.
\<close>

definition fmod :: "real \<Rightarrow> real \<Rightarrow> real" where
  "fmod x y = x - y * real_of_int (if 0 \<le> x / y then \<lfloor>x / y\<rfloor> else \<lceil>x / y\<rceil>)"

subsection \<open>ConstantFolder\<close>

text \<open>
  The chain of operator tests on two number literals in \<open>fold_expr\<close>. \<open>None\<close> is the
  fall-through: no literal is returned and the \<open>Binary\<close> node is rebuilt.
\<close>

definition fold_numbers :: "TokenType \<Rightarrow> real \<Rightarrow> real \<Rightarrow> LiteralValue option" where
  "fold_numbers op left_val right_val =
     (if op = PLUS then Some (Number (left_val + right_val))
      else if op = MINUS then Some (Number (left_val - right_val))
      else if op = STAR then Some (Number (left_val * right_val))
      else if op = SLASH then
        (if right_val \<noteq> 0 then Some (Number (left_val / right_val)) else None)
      else if op = PERCENT then
        (if right_val \<noteq> 0 then Some (Number (fmod left_val right_val)) else None)
      else if op = LESS then Some (Bool (left_val < right_val))
      else if op = LESS_EQUAL then Some (Bool (left_val \<le> right_val))
      else if op = GREATER then Some (Bool (left_val > right_val))
      else if op = GREATER_EQUAL then Some (Bool (left_val \<ge> right_val))
      else if op = EQUAL_EQUAL then Some (Bool (left_val = right_val))
      else if op = BANG_EQUAL then Some (Bool (left_val \<noteq> right_val))
      else None)"

definition fold_bools :: "TokenType \<Rightarrow> bool \<Rightarrow> bool \<Rightarrow> LiteralValue option" where
  "fold_bools op left_val right_val =
     (if op = EQUAL_EQUAL then Some (Bool (left_val = right_val))
      else if op = BANG_EQUAL then Some (Bool (left_val \<noteq> right_val))
      else None)"

text \<open>The condition value computed for a literal condition of \<open>if\<close> and \<open>while\<close>.\<close>

definition cond_val :: "LiteralValue \<Rightarrow> bool" where
  "cond_val v = (case v of Bool b \<Rightarrow> b | Number d \<Rightarrow> d \<noteq> 0 | _ \<Rightarrow> False)"

text \<open>The truth value computed for a literal left operand of \<open>and\<close>/\<open>or\<close>.\<close>

definition literal_truthy :: "LiteralValue \<Rightarrow> bool" where
  "literal_truthy v = (case v of Bool b \<Rightarrow> b | Number d \<Rightarrow> d \<noteq> 0 | _ \<Rightarrow> True)"

function (sequential) fold_expr :: "Expr \<Rightarrow> Expr \<times> bool"
  and fold_exprs :: "Expr list \<Rightarrow> Expr list \<times> bool"
  and fold_pairs :: "(Expr \<times> Expr) list \<Rightarrow> (Expr \<times> Expr) list \<times> bool" where
  "fold_expr (Literal v t) = (Literal v t, False)"
| "fold_expr (Grouping e) = fold_expr e"
| "fold_expr (Unary op right) =
     (let (folded_right, m) = fold_expr right in
      case as_literal folded_right of
        Some v \<Rightarrow>
          (if type op = MINUS then
             (case v of Number val \<Rightarrow> (Literal (Number (- val)) op, True)
                      | _ \<Rightarrow> (Unary op folded_right, True))
           else if type op = BANG then
             (case v of Bool val \<Rightarrow> (Literal (Bool (\<not> val)) op, True)
                      | Number val \<Rightarrow> (Literal (Bool (val = 0)) op, True)
                      | _ \<Rightarrow> (Unary op folded_right, True))
           else (Unary op folded_right, True))
      | None \<Rightarrow> (Unary op folded_right, m))"
| "fold_expr (Binary left op right) =
     (let (folded_left, m1) = fold_expr left;
          (folded_right, m2) = fold_expr right in
      case (as_literal folded_left, as_literal folded_right) of
        (Some (Number left_val), Some (Number right_val)) \<Rightarrow>
          (case fold_numbers (type op) left_val right_val of
             Some v \<Rightarrow> (Literal v op, True)
           | None \<Rightarrow> (Binary folded_left op folded_right, True))
      | (Some (Bool left_val), Some (Bool right_val)) \<Rightarrow>
          (case fold_bools (type op) left_val right_val of
             Some v \<Rightarrow> (Literal v op, True)
           | None \<Rightarrow> (Binary folded_left op folded_right, True))
      | _ \<Rightarrow> (Binary folded_left op folded_right, m1 \<or> m2))"
| "fold_expr (Logical left op right) =
     (let (folded_left, m1) = fold_expr left;
          (folded_right, m2) = fold_expr right in
      case as_literal folded_left of
        Some v \<Rightarrow>
          (if type op = AND then
             (if \<not> literal_truthy v then (Literal (Bool False) op, True)
              else (folded_right, True))
           else if type op = OR then
             (if literal_truthy v then (Literal (Bool True) op, True)
              else (folded_right, True))
           else (Logical folded_left op folded_right, m1 \<or> m2))
      | None \<Rightarrow> (Logical folded_left op folded_right, m1 \<or> m2))"
| "fold_expr (ArrayLiteral elements bracket) =
     (let (new_elems, m) = fold_exprs elements in (ArrayLiteral new_elems bracket, m))"
| "fold_expr (DictLiteral pairs brace) =
     (let (new_pairs, m) = fold_pairs pairs in (DictLiteral new_pairs brace, m))"
| "fold_expr (IndexGet array index bracket) =
     (let (a, m1) = fold_expr array; (i, m2) = fold_expr index in
      (IndexGet a i bracket, m1 \<or> m2))"
| "fold_expr (IndexSet array index val bracket) =
     (let (a, m1) = fold_expr array; (i, m2) = fold_expr index; (v, m3) = fold_expr val in
      (IndexSet a i v bracket, m1 \<or> m2 \<or> m3))"
| "fold_expr (Assign name val) =
     (let (v, m) = fold_expr val in (Assign name v, m))"
| "fold_expr (Call callee paren arguments) =
     (let (new_args, m) = fold_exprs arguments in (Call callee paren new_args, m))"
| "fold_expr (Variable name) = (Variable name, False)"
| "fold_exprs [] = ([], False)"
| "fold_exprs (e # es) =
     (let (e', m1) = fold_expr e; (es', m2) = fold_exprs es in (e' # es', m1 \<or> m2))"
| "fold_pairs [] = ([], False)"
| "fold_pairs ((k, v) # ps) =
     (let (k', m1) = fold_expr k; (v', m2) = fold_expr v;
          (ps', m3) = fold_pairs ps in
      ((k', v') # ps', m1 \<or> m2 \<or> m3))"
  by pat_completeness auto
termination
  by (relation "measure (\<lambda>x. case x of Inl e \<Rightarrow> size e
        | Inr (Inl es) \<Rightarrow> size_list size es
        | Inr (Inr ps) \<Rightarrow> size_list (size_prod size size) ps)") auto

text \<open>
  \<open>fold_stmts\<close> is the loop shared by \<open>run\<close> and by every statement list inside
  \<open>fold_stmt\<close>: a statement is folded and pushed unless the result is null.
\<close>

fun fold_stmt :: "Stmt \<Rightarrow> Stmt \<times> bool"
  and fold_stmts :: "Stmt list \<Rightarrow> Stmt list \<times> bool"
  and fold_cases :: "CaseClause list \<Rightarrow> CaseClause list \<times> bool" where
  "fold_stmt NullStmt = (NullStmt, False)"
| "fold_stmt (ExprStmt e) = (let (e', m) = fold_expr e in (ExprStmt e', m))"
| "fold_stmt (PrintStmt e keyword) = (let (e', m) = fold_expr e in (PrintStmt e' keyword, m))"
| "fold_stmt (VarStmt name initializer) =
     (case initializer of
        None \<Rightarrow> (VarStmt name None, False)
      | Some e \<Rightarrow> (let (e', m) = fold_expr e in (VarStmt name (Some e'), m)))"
| "fold_stmt (Block statements brace) =
     (let (new_stmts, m) = fold_stmts statements in (Block new_stmts brace, m))"
| "fold_stmt (IfStmt condition then_branch else_branch keyword) =
     (let (folded_cond, m) = fold_expr condition in
      case as_literal folded_cond of
        Some v \<Rightarrow>
          (if cond_val v then (fst (fold_stmt then_branch), True)
           else (case else_branch of
                   Some e \<Rightarrow> (fst (fold_stmt e), True)
                 | None \<Rightarrow> (NullStmt, True)))
      | None \<Rightarrow>
          (let (then_br, m1) = fold_stmt then_branch;
               (else_br, m2) =
                  (case else_branch of
                     None \<Rightarrow> (None, False)
                   | Some e \<Rightarrow> (let (e', m') = fold_stmt e in (Some e', m')))
           in (IfStmt folded_cond then_br else_br keyword, m \<or> m1 \<or> m2)))"
| "fold_stmt (WhileStmt condition body keyword) =
     (let (folded_cond, m) = fold_expr condition in
      if (case as_literal folded_cond of Some v \<Rightarrow> \<not> cond_val v | None \<Rightarrow> False)
      then (NullStmt, True)
      else (let (b, m1) = fold_stmt body in (WhileStmt folded_cond b keyword, m \<or> m1)))"
| "fold_stmt (SwitchStmt keyword condition cases default_case) =
     (let (folded_cond, m) = fold_expr condition;
          (new_cases, m1) = fold_cases cases;
          (new_default, m2) =
             (case default_case of
                None \<Rightarrow> (None, False)
              | Some ds \<Rightarrow> (let (ds', m') = fold_stmts ds in (Some ds', m')))
      in (SwitchStmt keyword folded_cond new_cases new_default, m \<or> m1 \<or> m2))"
| "fold_stmt (FunctionStmt name params body) =
     (let (new_body, m) = fold_stmts body in (FunctionStmt name params new_body, m))"
| "fold_stmt (ReturnStmt keyword val) =
     (case val of
        None \<Rightarrow> (ReturnStmt keyword None, False)
      | Some e \<Rightarrow> (let (e', m) = fold_expr e in (ReturnStmt keyword (Some e'), m)))"
| "fold_stmt (BreakStmt keyword) = (BreakStmt keyword, False)"
| "fold_stmt (UnsafeBlock keyword statements) = (UnsafeBlock keyword statements, False)"
| "fold_stmt (LLVMInlineStmt keyword code vars) = (LLVMInlineStmt keyword code vars, False)"
| "fold_stmt (ImportStmt keyword path path_token) = (ImportStmt keyword path path_token, False)"
| "fold_stmts [] = ([], False)"
| "fold_stmts (s # ss) =
     (let (folded, m1) = fold_stmt s; (rest, m2) = fold_stmts ss in
      (if folded = NullStmt then rest else folded # rest, m1 \<or> m2))"
| "fold_cases [] = ([], False)"
| "fold_cases (CaseClause v stmts # cs) =
     (let (folded_val, m1) = fold_expr v; (case_stmts, m2) = fold_stmts stmts;
          (cs', m3) = fold_cases cs in
      (CaseClause folded_val case_stmts # cs', m1 \<or> m2 \<or> m3))"

definition ConstantFolder_run :: "Stmt list \<Rightarrow> Stmt list \<times> bool" where
  "ConstantFolder_run statements = fold_stmts statements"

subsection \<open>AlgebraicSimplifier\<close>

text \<open>\<open>dynamic_cast<Unary*>\<close> and \<open>dynamic_cast<Variable*>\<close>.\<close>

definition as_unary :: "Expr \<Rightarrow> (Token \<times> Expr) option" where
  "as_unary e = (case e of Unary op right \<Rightarrow> Some (op, right) | _ \<Rightarrow> None)"

definition as_variable :: "Expr \<Rightarrow> Token option" where
  "as_variable e = (case e of Variable name \<Rightarrow> Some name | _ \<Rightarrow> None)"

definition is_zero :: "Expr \<Rightarrow> bool" where
  "is_zero e = (case as_literal e of Some (Number d) \<Rightarrow> d = 0 | _ \<Rightarrow> False)"

definition is_one :: "Expr \<Rightarrow> bool" where
  "is_one e = (case as_literal e of Some (Number d) \<Rightarrow> d = 1 | _ \<Rightarrow> False)"

definition are_equal_variables :: "Expr \<Rightarrow> Expr \<Rightarrow> bool" where
  "are_equal_variables a b =
     (case (as_variable a, as_variable b) of
        (Some var_a, Some var_b) \<Rightarrow> lexeme var_a = lexeme var_b
      | _ \<Rightarrow> False)"

text \<open>
  \<open>is_power_of_two(double n)\<close>: \<open>n\<close> is positive, equal to its conversion to \<open>int\<close>,
  and \<open>val & (val - 1)\<close> is zero. The conversion is modelled on unbounded integers (in
  the source it is undefined for a value outside the range of \<open>int\<close>).
\<close>

definition is_power_of_two :: "real \<Rightarrow> bool" where
  "is_power_of_two n =
     (if n \<le> 0 \<or> n \<noteq> real_of_int \<lfloor>n\<rfloor> then False
      else (let val = \<lfloor>n\<rfloor> in Bit_Operations.and val (val - 1) = 0))"

text \<open>\<open>StrengthReducer::log2_int\<close>: the number of right shifts that bring \<open>n\<close> to 1 or below.\<close>

function log2_int :: "int \<Rightarrow> nat" where
  "log2_int n = (if n > 1 then Suc (log2_int (n div 2)) else 0)"
  by pat_completeness auto
termination
  by (relation "measure nat") auto

text \<open>
  \<open>std::to_string(double)\<close> prints six decimals. The optimizer only passes it
  non-negative whole numbers (0, 1, and a power of two minus one), and the model covers
  those: the decimal digits of the integer part followed by \<open>.000000\<close>.
\<close>

fun digits_of_nat :: "nat \<Rightarrow> string" where
  "digits_of_nat n =
     (if n < 10 then [char_of (48 + n)]
      else digits_of_nat (n div 10) @ [char_of (48 + n mod 10)])"

definition to_string :: "real \<Rightarrow> string" where
  "to_string v = digits_of_nat (nat \<lfloor>v\<rfloor>) @ ''.000000''"

definition create_literal :: "real \<Rightarrow> Expr" where
  "create_literal v = Literal (Number v) (literal_token NUMBER (to_string v) (Number v) 0 0)"

fun deep_copy_expr :: "Expr \<Rightarrow> Expr" where
  "deep_copy_expr (Literal v t) = Literal v t"
| "deep_copy_expr (Variable name) = Variable name"
| "deep_copy_expr (Binary l op r) = Binary (deep_copy_expr l) op (deep_copy_expr r)"
| "deep_copy_expr (Unary op r) = Unary op (deep_copy_expr r)"
| "deep_copy_expr (Assign n v) = Assign n v"
| "deep_copy_expr (Logical l op r) = Logical l op r"
| "deep_copy_expr (Call c p args) = Call c p args"
| "deep_copy_expr (Grouping e) = Grouping e"
| "deep_copy_expr (ArrayLiteral es b) = ArrayLiteral es b"
| "deep_copy_expr (IndexGet a i b) = IndexGet a i b"
| "deep_copy_expr (IndexSet a i v b) = IndexSet a i v b"
| "deep_copy_expr (DictLiteral ps b) = DictLiteral ps b"

text \<open>The loop \<open>result = Binary(result, +, deep_copy_expr(result))\<close>, run \<open>power\<close> times.\<close>

fun double_times :: "nat \<Rightarrow> Expr \<Rightarrow> Expr" where
  "double_times 0 result = result"
| "double_times (Suc i) result =
     double_times i (Binary result (token PLUS ''+'' 0 0) (deep_copy_expr result))"

text \<open>
  The rewrite rules tried on a \<open>Binary\<close> node whose operands are already simplified.
  \<open>None\<close>: no rule applies and the node is rebuilt. \<open>std::log2\<close> of an exact power of
  two is its exponent, which \<open>log2_int\<close> computes.
\<close>

definition simplify_binary :: "Expr \<Rightarrow> Token \<Rightarrow> Expr \<Rightarrow> Expr option" where
  "simplify_binary left op right =
     (if type op = PLUS \<and> is_zero left then Some right
      else if type op = PLUS \<and> is_zero right then Some left
      else if type op = MINUS \<and> is_zero right then Some left
      else if type op = MINUS \<and> are_equal_variables left right then Some (create_literal 0)
      else if type op = STAR \<and> is_zero left then Some (create_literal 0)
      else if type op = STAR \<and> is_zero right then Some (create_literal 0)
      else if type op = STAR \<and> is_one left then Some right
      else if type op = STAR \<and> is_one right then Some left
      else if type op = STAR then
        (case as_literal right of
           Some (Number val) \<Rightarrow>
             (if val = 2 then
                Some (Binary left (token PLUS ''+'' 0 0) (deep_copy_expr left))
              else if is_power_of_two val then
                Some (double_times (log2_int \<lfloor>val\<rfloor>) left)
              else None)
         | _ \<Rightarrow> None)
      else if type op = SLASH \<and> is_one right then Some left
      else if type op = SLASH \<and> are_equal_variables left right then Some (create_literal 1)
      else None)"

function (sequential) simplify_expr :: "Expr \<Rightarrow> Expr \<times> bool"
  and simplify_exprs :: "Expr list \<Rightarrow> Expr list \<times> bool"
  and simplify_pairs :: "(Expr \<times> Expr) list \<Rightarrow> (Expr \<times> Expr) list \<times> bool" where
  "simplify_expr (Binary l op r) =
     (let (left, m1) = simplify_expr l; (right, m2) = simplify_expr r in
      case simplify_binary left op right of
        Some e \<Rightarrow> (e, True)
      | None \<Rightarrow> (Binary left op right, m1 \<or> m2))"
| "simplify_expr (Unary op r) =
     (let (right, m) = simplify_expr r in
      case (if type op = MINUS then as_unary right else None) of
        Some (inner_op, inner_right) \<Rightarrow>
          (if type inner_op = MINUS then (inner_right, True) else (Unary op right, m))
      | None \<Rightarrow> (Unary op right, m))"
| "simplify_expr (Grouping e) = simplify_expr e"
| "simplify_expr (Logical l op r) =
     (let (left, m1) = simplify_expr l; (right, m2) = simplify_expr r in
      (Logical left op right, m1 \<or> m2))"
| "simplify_expr (ArrayLiteral elements bracket) =
     (let (new_elems, m) = simplify_exprs elements in (ArrayLiteral new_elems bracket, m))"
| "simplify_expr (DictLiteral pairs brace) =
     (let (new_pairs, m) = simplify_pairs pairs in (DictLiteral new_pairs brace, m))"
| "simplify_expr (IndexGet array index bracket) =
     (let (a, m1) = simplify_expr array; (i, m2) = simplify_expr index in
      (IndexGet a i bracket, m1 \<or> m2))"
| "simplify_expr (IndexSet array index val bracket) =
     (let (a, m1) = simplify_expr array; (i, m2) = simplify_expr index;
          (v, m3) = simplify_expr val in
      (IndexSet a i v bracket, m1 \<or> m2 \<or> m3))"
| "simplify_expr (Assign name val) =
     (let (v, m) = simplify_expr val in (Assign name v, m))"
| "simplify_expr (Call callee paren arguments) =
     (let (new_args, m) = simplify_exprs arguments in (Call callee paren new_args, m))"
| "simplify_expr (Literal v t) = (Literal v t, False)"
| "simplify_expr (Variable name) = (Variable name, False)"
| "simplify_exprs [] = ([], False)"
| "simplify_exprs (e # es) =
     (let (e', m1) = simplify_expr e; (es', m2) = simplify_exprs es in (e' # es', m1 \<or> m2))"
| "simplify_pairs [] = ([], False)"
| "simplify_pairs ((k, v) # ps) =
     (let (k', m1) = simplify_expr k; (v', m2) = simplify_expr v;
          (ps', m3) = simplify_pairs ps in
      ((k', v') # ps', m1 \<or> m2 \<or> m3))"
  by pat_completeness auto
termination
  by (relation "measure (\<lambda>x. case x of Inl e \<Rightarrow> size e
        | Inr (Inl es) \<Rightarrow> size_list size es
        | Inr (Inr ps) \<Rightarrow> size_list (size_prod size size) ps)") auto

fun simplify_stmt :: "Stmt \<Rightarrow> Stmt \<times> bool"
  and simplify_stmts :: "Stmt list \<Rightarrow> Stmt list \<times> bool"
  and simplify_cases :: "CaseClause list \<Rightarrow> CaseClause list \<times> bool" where
  "simplify_stmt NullStmt = (NullStmt, False)"
| "simplify_stmt (ExprStmt e) = (let (e', m) = simplify_expr e in (ExprStmt e', m))"
| "simplify_stmt (PrintStmt e keyword) =
     (let (e', m) = simplify_expr e in (PrintStmt e' keyword, m))"
| "simplify_stmt (VarStmt name initializer) =
     (case initializer of
        None \<Rightarrow> (VarStmt name None, False)
      | Some e \<Rightarrow> (let (e', m) = simplify_expr e in (VarStmt name (Some e'), m)))"
| "simplify_stmt (Block statements brace) =
     (let (new_stmts, m) = simplify_stmts statements in (Block new_stmts brace, m))"
| "simplify_stmt (IfStmt condition then_branch else_branch keyword) =
     (let (cond, m) = simplify_expr condition;
          (then_br, m1) = simplify_stmt then_branch;
          (else_br, m2) =
             (case else_branch of
                None \<Rightarrow> (None, False)
              | Some e \<Rightarrow> (let (e', m') = simplify_stmt e in (Some e', m')))
      in (IfStmt cond then_br else_br keyword, m \<or> m1 \<or> m2))"
| "simplify_stmt (WhileStmt condition body keyword) =
     (let (cond, m) = simplify_expr condition; (b, m1) = simplify_stmt body in
      (WhileStmt cond b keyword, m \<or> m1))"
| "simplify_stmt (SwitchStmt keyword condition cases default_case) =
     (let (cond, m) = simplify_expr condition;
          (new_cases, m1) = simplify_cases cases;
          (new_default, m2) =
             (case default_case of
                None \<Rightarrow> (None, False)
              | Some ds \<Rightarrow> (let (ds', m') = simplify_stmts ds in (Some ds', m')))
      in (SwitchStmt keyword cond new_cases new_default, m \<or> m1 \<or> m2))"
| "simplify_stmt (FunctionStmt name params body) =
     (let (new_body, m) = simplify_stmts body in (FunctionStmt name params new_body, m))"
| "simplify_stmt (ReturnStmt keyword val) =
     (case val of
        None \<Rightarrow> (ReturnStmt keyword None, False)
      | Some e \<Rightarrow> (let (e', m) = simplify_expr e in (ReturnStmt keyword (Some e'), m)))"
| "simplify_stmt (BreakStmt keyword) = (BreakStmt keyword, False)"
| "simplify_stmt (UnsafeBlock keyword statements) = (UnsafeBlock keyword statements, False)"
| "simplify_stmt (LLVMInlineStmt keyword code vars) = (LLVMInlineStmt keyword code vars, False)"
| "simplify_stmt (ImportStmt keyword path path_token) =
     (ImportStmt keyword path path_token, False)"
| "simplify_stmts [] = ([], False)"
| "simplify_stmts (s # ss) =
     (let (simplified, m1) = simplify_stmt s; (rest, m2) = simplify_stmts ss in
      (if simplified = NullStmt then rest else simplified # rest, m1 \<or> m2))"
| "simplify_cases [] = ([], False)"
| "simplify_cases (CaseClause v stmts # cs) =
     (let (val, m1) = simplify_expr v; (ss, m2) = simplify_stmts stmts;
          (cs', m3) = simplify_cases cs in
      (CaseClause val ss # cs', m1 \<or> m2 \<or> m3))"

definition AlgebraicSimplifier_run :: "Stmt list \<Rightarrow> Stmt list \<times> bool" where
  "AlgebraicSimplifier_run statements = simplify_stmts statements"

subsection \<open>DeadCodeEliminator\<close>

text \<open>
  \<open>used_vars\<close> is a set of names that is only inserted into and tested for membership;
  it is a list here. \<open>defined_vars\<close> is written by \<open>analyze_stmt\<close> and never read, and
  \<open>mark_essential_variables\<close> has an empty loop body, so \<open>essential_vars\<close> stays empty.
\<close>

function (sequential) dce_analyze_expr :: "Expr \<Rightarrow> string list \<Rightarrow> string list"
  and dce_analyze_exprs :: "Expr list \<Rightarrow> string list \<Rightarrow> string list"
  and dce_analyze_pairs :: "(Expr \<times> Expr) list \<Rightarrow> string list \<Rightarrow> string list" where
  "dce_analyze_expr (Variable name) used = List.insert (lexeme name) used"
| "dce_analyze_expr (Assign name val) used =
     dce_analyze_expr val (List.insert (lexeme name) used)"
| "dce_analyze_expr (Binary l op r) used = dce_analyze_expr r (dce_analyze_expr l used)"
| "dce_analyze_expr (Unary op r) used = dce_analyze_expr r used"
| "dce_analyze_expr (Logical l op r) used = dce_analyze_expr r (dce_analyze_expr l used)"
| "dce_analyze_expr (Grouping e) used = dce_analyze_expr e used"
| "dce_analyze_expr (Call callee paren arguments) used = dce_analyze_exprs arguments used"
| "dce_analyze_expr (ArrayLiteral elements bracket) used = dce_analyze_exprs elements used"
| "dce_analyze_expr (DictLiteral pairs brace) used = dce_analyze_pairs pairs used"
| "dce_analyze_expr (IndexGet array index bracket) used =
     dce_analyze_expr index (dce_analyze_expr array used)"
| "dce_analyze_expr (IndexSet array index val bracket) used =
     dce_analyze_expr val (dce_analyze_expr index (dce_analyze_expr array used))"
| "dce_analyze_expr (Literal v t) used = used"
| "dce_analyze_exprs [] used = used"
| "dce_analyze_exprs (e # es) used = dce_analyze_exprs es (dce_analyze_expr e used)"
| "dce_analyze_pairs [] used = used"
| "dce_analyze_pairs ((k, v) # ps) used =
     dce_analyze_pairs ps (dce_analyze_expr v (dce_analyze_expr k used))"
  by pat_completeness auto
termination
  by (relation "measure (\<lambda>x. case x of Inl (e, u) \<Rightarrow> size e
        | Inr (Inl (es, u)) \<Rightarrow> size_list size es
        | Inr (Inr (ps, u)) \<Rightarrow> size_list (size_prod size size) ps)") auto

function (sequential) dce_analyze_stmt :: "Stmt \<Rightarrow> string list \<Rightarrow> string list"
  and dce_analyze_stmts :: "Stmt list \<Rightarrow> string list \<Rightarrow> string list"
  and dce_analyze_cases :: "CaseClause list \<Rightarrow> string list \<Rightarrow> string list" where
  "dce_analyze_stmt NullStmt used = used"
| "dce_analyze_stmt (VarStmt name initializer) used =
     (case initializer of None \<Rightarrow> used | Some e \<Rightarrow> dce_analyze_expr e used)"
| "dce_analyze_stmt (ExprStmt e) used = dce_analyze_expr e used"
| "dce_analyze_stmt (PrintStmt e keyword) used = dce_analyze_expr e used"
| "dce_analyze_stmt (Block statements brace) used = dce_analyze_stmts statements used"
| "dce_analyze_stmt (IfStmt condition then_branch else_branch keyword) used =
     (let used1 = dce_analyze_stmt then_branch (dce_analyze_expr condition used) in
      case else_branch of None \<Rightarrow> used1 | Some e \<Rightarrow> dce_analyze_stmt e used1)"
| "dce_analyze_stmt (WhileStmt condition body keyword) used =
     dce_analyze_stmt body (dce_analyze_expr condition used)"
| "dce_analyze_stmt (SwitchStmt keyword condition cases default_case) used =
     (let used1 = dce_analyze_cases cases (dce_analyze_expr condition used) in
      case default_case of None \<Rightarrow> used1 | Some ds \<Rightarrow> dce_analyze_stmts ds used1)"
| "dce_analyze_stmt (FunctionStmt name params body) used = dce_analyze_stmts body used"
| "dce_analyze_stmt (ReturnStmt keyword val) used =
     (case val of None \<Rightarrow> used | Some e \<Rightarrow> dce_analyze_expr e used)"
| "dce_analyze_stmt (BreakStmt keyword) used = used"
| "dce_analyze_stmt (UnsafeBlock keyword statements) used = used"
| "dce_analyze_stmt (LLVMInlineStmt keyword code vars) used = used"
| "dce_analyze_stmt (ImportStmt keyword path path_token) used = used"
| "dce_analyze_stmts [] used = used"
| "dce_analyze_stmts (s # ss) used = dce_analyze_stmts ss (dce_analyze_stmt s used)"
| "dce_analyze_cases [] used = used"
| "dce_analyze_cases (CaseClause v stmts # cs) used =
     dce_analyze_cases cs (dce_analyze_stmts stmts (dce_analyze_expr v used))"
  by pat_completeness auto
termination
  by (relation "measure (\<lambda>x. case x of Inl (s, u) \<Rightarrow> size s
        | Inr (Inl (ss, u)) \<Rightarrow> size_list size ss
        | Inr (Inr (cs, u)) \<Rightarrow> size_list size cs)") auto

function (sequential) has_side_effects :: "Expr \<Rightarrow> bool"
  and any_side_effects :: "Expr list \<Rightarrow> bool"
  and any_pair_side_effects :: "(Expr \<times> Expr) list \<Rightarrow> bool" where
  "has_side_effects (Call callee paren arguments) = True"
| "has_side_effects (Assign name val) = True"
| "has_side_effects (IndexSet array index val bracket) = True"
| "has_side_effects (Binary l op r) = (has_side_effects l \<or> has_side_effects r)"
| "has_side_effects (Unary op r) = has_side_effects r"
| "has_side_effects (Logical l op r) = (has_side_effects l \<or> has_side_effects r)"
| "has_side_effects (Grouping e) = has_side_effects e"
| "has_side_effects (ArrayLiteral elements bracket) = any_side_effects elements"
| "has_side_effects (DictLiteral pairs brace) = any_pair_side_effects pairs"
| "has_side_effects (IndexGet array index bracket) =
     (has_side_effects array \<or> has_side_effects index)"
| "has_side_effects (Literal v t) = False"
| "has_side_effects (Variable name) = False"
| "any_side_effects [] = False"
| "any_side_effects (e # es) = (has_side_effects e \<or> any_side_effects es)"
| "any_pair_side_effects [] = False"
| "any_pair_side_effects ((k, v) # ps) =
     (has_side_effects k \<or> has_side_effects v \<or> any_pair_side_effects ps)"
  by pat_completeness auto
termination
  by (relation "measure (\<lambda>x. case x of Inl e \<Rightarrow> size e
        | Inr (Inl es) \<Rightarrow> size_list size es
        | Inr (Inr ps) \<Rightarrow> size_list (size_prod size size) ps)") auto

definition should_keep_stmt :: "string list \<Rightarrow> string list \<Rightarrow> Stmt \<Rightarrow> bool" where
  "should_keep_stmt used_vars essential_vars stmt =
     (case stmt of
        NullStmt \<Rightarrow> False
      | VarStmt name initializer \<Rightarrow>
          (if (case initializer of Some e \<Rightarrow> has_side_effects e | None \<Rightarrow> False) then True
           else lexeme name \<in> set used_vars \<or> lexeme name \<in> set essential_vars)
      | _ \<Rightarrow> True)"

function (sequential) eliminate_stmt :: "string list \<Rightarrow> string list \<Rightarrow> Stmt \<Rightarrow> Stmt"
  and eliminate_stmts :: "string list \<Rightarrow> string list \<Rightarrow> Stmt list \<Rightarrow> Stmt list"
  and eliminate_cases :: "string list \<Rightarrow> string list \<Rightarrow> CaseClause list \<Rightarrow> CaseClause list" where
  "eliminate_stmt u es NullStmt = NullStmt"
| "eliminate_stmt u es (Block statements brace) = Block (eliminate_stmts u es statements) brace"
| "eliminate_stmt u es (IfStmt condition then_branch else_branch keyword) =
     IfStmt condition (eliminate_stmt u es then_branch)
       (case else_branch of None \<Rightarrow> None | Some e \<Rightarrow> Some (eliminate_stmt u es e)) keyword"
| "eliminate_stmt u es (WhileStmt condition body keyword) =
     WhileStmt condition (eliminate_stmt u es body) keyword"
| "eliminate_stmt u es (SwitchStmt keyword condition cases default_case) =
     SwitchStmt keyword condition (eliminate_cases u es cases)
       (case default_case of None \<Rightarrow> None | Some ds \<Rightarrow> Some (eliminate_stmts u es ds))"
| "eliminate_stmt u es (FunctionStmt name params body) =
     FunctionStmt name params (eliminate_stmts u es body)"
| "eliminate_stmt u es (ExprStmt e) = ExprStmt e"
| "eliminate_stmt u es (PrintStmt e keyword) = PrintStmt e keyword"
| "eliminate_stmt u es (VarStmt name initializer) = VarStmt name initializer"
| "eliminate_stmt u es (ReturnStmt keyword val) = ReturnStmt keyword val"
| "eliminate_stmt u es (BreakStmt keyword) = BreakStmt keyword"
| "eliminate_stmt u es (UnsafeBlock keyword statements) = UnsafeBlock keyword statements"
| "eliminate_stmt u es (LLVMInlineStmt keyword code vars) = LLVMInlineStmt keyword code vars"
| "eliminate_stmt u es (ImportStmt keyword path path_token) = ImportStmt keyword path path_token"
| "eliminate_stmts u es [] = []"
| "eliminate_stmts u es (s # ss) =
     (if should_keep_stmt u es s then eliminate_stmt u es s # eliminate_stmts u es ss
      else eliminate_stmts u es ss)"
| "eliminate_cases u es [] = []"
| "eliminate_cases u es (CaseClause v stmts # cs) =
     CaseClause v (eliminate_stmts u es stmts) # eliminate_cases u es cs"
  by pat_completeness auto
termination
  by (relation "measure (\<lambda>x. case x of Inl (u, es, s) \<Rightarrow> size s
        | Inr (Inl (u, es, ss)) \<Rightarrow> size_list size ss
        | Inr (Inr (u, es, cs)) \<Rightarrow> size_list size cs)") auto

text \<open>\<open>run\<close> clears \<open>modified\<close> and nothing in the pass sets it.\<close>

definition DeadCodeEliminator_run :: "Stmt list \<Rightarrow> Stmt list \<times> bool" where
  "DeadCodeEliminator_run statements =
     (let used_vars = dce_analyze_stmts statements []; essential_vars = [] in
      (eliminate_stmts used_vars essential_vars statements, False))"

subsection \<open>CommonSubexpressionEliminator\<close>

text \<open>
  \<open>process_expr\<close> and \<open>process_stmt\<close> rebuild the nodes they know and return every other
  node as it is; \<open>expr_cache\<close> is saved, cleared and restored around a function body but
  nothing is ever stored in it, and \<open>modified\<close> is never set.
\<close>

fun process_expr :: "Expr \<Rightarrow> Expr" where
  "process_expr (Literal v t) = Literal v t"
| "process_expr (Variable name) = Variable name"
| "process_expr (Binary l op r) = Binary (process_expr l) op (process_expr r)"
| "process_expr (Unary op r) = Unary op (process_expr r)"
| "process_expr (Logical l op r) = Logical (process_expr l) op (process_expr r)"
| "process_expr (Grouping e) = Grouping (process_expr e)"
| "process_expr (Assign n v) = Assign n v"
| "process_expr (Call c p args) = Call c p args"
| "process_expr (ArrayLiteral es b) = ArrayLiteral es b"
| "process_expr (IndexGet a i b) = IndexGet a i b"
| "process_expr (IndexSet a i v b) = IndexSet a i v b"
| "process_expr (DictLiteral ps b) = DictLiteral ps b"

fun process_stmt :: "Stmt \<Rightarrow> Stmt" and process_stmts :: "Stmt list \<Rightarrow> Stmt list" where
  "process_stmt NullStmt = NullStmt"
| "process_stmt (Block statements brace) = Block (process_stmts statements) brace"
| "process_stmt (IfStmt condition then_branch else_branch keyword) =
     IfStmt (process_expr condition) (process_stmt then_branch)
       (case else_branch of None \<Rightarrow> None | Some e \<Rightarrow> Some (process_stmt e)) keyword"
| "process_stmt (WhileStmt condition body keyword) =
     WhileStmt (process_expr condition) (process_stmt body) keyword"
| "process_stmt (FunctionStmt name params body) = FunctionStmt name params (process_stmts body)"
| "process_stmt (ExprStmt e) = ExprStmt (process_expr e)"
| "process_stmt (PrintStmt e keyword) = PrintStmt (process_expr e) keyword"
| "process_stmt (VarStmt name initializer) =
     VarStmt name (case initializer of None \<Rightarrow> None | Some e \<Rightarrow> Some (process_expr e))"
| "process_stmt (ReturnStmt keyword val) =
     ReturnStmt keyword (case val of None \<Rightarrow> None | Some e \<Rightarrow> Some (process_expr e))"
| "process_stmt (BreakStmt keyword) = BreakStmt keyword"
| "process_stmt (SwitchStmt keyword condition cases default_case) =
     SwitchStmt keyword condition cases default_case"
| "process_stmt (UnsafeBlock keyword statements) = UnsafeBlock keyword statements"
| "process_stmt (LLVMInlineStmt keyword code vars) = LLVMInlineStmt keyword code vars"
| "process_stmt (ImportStmt keyword path path_token) = ImportStmt keyword path path_token"
| "process_stmts [] = []"
| "process_stmts (s # ss) = process_stmt s # process_stmts ss"

definition CommonSubexpressionEliminator_run :: "Stmt list \<Rightarrow> Stmt list \<times> bool" where
  "CommonSubexpressionEliminator_run statements = (process_stmts statements, False)"

subsection \<open>Configuration (optimizer.hpp)\<close>

record OptimizerConfig =
  constant_folding :: bool
  constant_propagation :: bool
  dead_code_elimination :: bool
  common_subexpression_elimination :: bool
  loop_invariant_code_motion :: bool
  loop_unrolling :: bool
  loop_unroll_threshold :: int
  strength_reduction :: bool
  function_inlining :: bool
  inline_threshold :: int
  algebraic_simplification :: bool
  peephole_optimization :: bool
  optimize_level :: int
  aggressive_optimization :: bool
  loop_fusion :: bool
  loop_interchange :: bool

text \<open>The default member initializers of \<open>OptimizerConfig\<close>.\<close>

definition default_config :: OptimizerConfig where
  "default_config =
     \<lparr>constant_folding = True, constant_propagation = True, dead_code_elimination = True,
      common_subexpression_elimination = True, loop_invariant_code_motion = True,
      loop_unrolling = True, loop_unroll_threshold = 32, strength_reduction = True,
      function_inlining = True, inline_threshold = 10, algebraic_simplification = True,
      peephole_optimization = True, optimize_level = 3, aggressive_optimization = True,
      loop_fusion = False, loop_interchange = False\<rparr>"

subsection \<open>LoopOptimizer\<close>

definition can_unroll :: "Stmt \<Rightarrow> bool" where
  "can_unroll stmt = False"

definition get_iteration_count :: "Stmt \<Rightarrow> int option" where
  "get_iteration_count stmt = None"

definition unroll_loop :: "Stmt \<Rightarrow> int \<Rightarrow> Stmt" where
  "unroll_loop stmt iterations =
     (case stmt of
        WhileStmt condition body keyword \<Rightarrow>
          Block (replicate (nat iterations) body) (token LBRACE ''{'' 0 0)
      | _ \<Rightarrow> stmt)"

definition try_unroll_loop :: "OptimizerConfig \<Rightarrow> Stmt \<Rightarrow> Stmt \<times> bool" where
  "try_unroll_loop config stmt =
     (if \<not> loop_unrolling config then (stmt, False)
      else if \<not> can_unroll stmt then (stmt, False)
      else (case get_iteration_count stmt of
              Some n \<Rightarrow>
                (if n > 0 \<and> n \<le> loop_unroll_threshold config then (unroll_loop stmt n, True)
                 else (stmt, False))
            | None \<Rightarrow> (stmt, False)))"

text \<open>
  \<open>can_unroll\<close> is constantly false, so \<open>try_unroll_loop\<close> returns the statement it
  was given. The recursion of \<open>optimize_stmt\<close> through the loop returned by
  \<open>try_unroll_loop\<close> terminates for that reason.
\<close>

lemma try_unroll_loop_same: "try_unroll_loop config stmt = (stmt, False)"
  by (simp add: try_unroll_loop_def can_unroll_def)

function (sequential) loop_optimize_stmt :: "OptimizerConfig \<Rightarrow> Stmt \<Rightarrow> Stmt \<times> bool"
  and loop_optimize_stmts :: "OptimizerConfig \<Rightarrow> Stmt list \<Rightarrow> Stmt list \<times> bool" where
  "loop_optimize_stmt config NullStmt = (NullStmt, False)"
| "loop_optimize_stmt config (WhileStmt condition body keyword) =
     (let (optimized, m) = try_unroll_loop config (WhileStmt condition body keyword) in
      case optimized of
        WhileStmt still_condition still_body still_keyword \<Rightarrow>
          (let (b, m1) = loop_optimize_stmt config still_body in
           (WhileStmt still_condition b still_keyword, m \<or> m1))
      | _ \<Rightarrow> (optimized, m))"
| "loop_optimize_stmt config (Block statements brace) =
     (let (new_stmts, m) = loop_optimize_stmts config statements in (Block new_stmts brace, m))"
| "loop_optimize_stmt config (IfStmt condition then_branch else_branch keyword) =
     (let (then_br, m1) = loop_optimize_stmt config then_branch;
          (else_br, m2) =
             (case else_branch of
                None \<Rightarrow> (None, False)
              | Some e \<Rightarrow> (let (e', m') = loop_optimize_stmt config e in (Some e', m')))
      in (IfStmt condition then_br else_br keyword, m1 \<or> m2))"
| "loop_optimize_stmt config (FunctionStmt name params body) =
     (let (new_body, m) = loop_optimize_stmts config body in
      (FunctionStmt name params new_body, m))"
| "loop_optimize_stmt config (ExprStmt e) = (ExprStmt e, False)"
| "loop_optimize_stmt config (PrintStmt e keyword) = (PrintStmt e keyword, False)"
| "loop_optimize_stmt config (VarStmt name initializer) = (VarStmt name initializer, False)"
| "loop_optimize_stmt config (ReturnStmt keyword val) = (ReturnStmt keyword val, False)"
| "loop_optimize_stmt config (BreakStmt keyword) = (BreakStmt keyword, False)"
| "loop_optimize_stmt config (SwitchStmt keyword condition cases default_case) =
     (SwitchStmt keyword condition cases default_case, False)"
| "loop_optimize_stmt config (UnsafeBlock keyword statements) =
     (UnsafeBlock keyword statements, False)"
| "loop_optimize_stmt config (LLVMInlineStmt keyword code vars) =
     (LLVMInlineStmt keyword code vars, False)"
| "loop_optimize_stmt config (ImportStmt keyword path path_token) =
     (ImportStmt keyword path path_token, False)"
| "loop_optimize_stmts config [] = ([], False)"
| "loop_optimize_stmts config (s # ss) =
     (let (s', m1) = loop_optimize_stmt config s; (ss', m2) = loop_optimize_stmts config ss in
      (s' # ss', m1 \<or> m2))"
  by pat_completeness auto
termination
  by (relation "measure (\<lambda>x. case x of Inl (c, s) \<Rightarrow> size s
        | Inr (c, ss) \<Rightarrow> size_list size ss)")
     (auto simp: try_unroll_loop_same)

definition LoopOptimizer_run :: "OptimizerConfig \<Rightarrow> Stmt list \<Rightarrow> Stmt list \<times> bool" where
  "LoopOptimizer_run config statements = loop_optimize_stmts config statements"

subsection \<open>StrengthReducer\<close>

text \<open>The loop \<open>result = Binary(result, +, result)\<close>, run \<open>shift_amount\<close> times.\<close>

fun add_to_itself_times :: "nat \<Rightarrow> Expr \<Rightarrow> Expr" where
  "add_to_itself_times 0 result = result"
| "add_to_itself_times (Suc i) result =
     add_to_itself_times i (Binary result (token PLUS ''+'' 0 0) result)"

text \<open>The loop \<open>result = Binary(result, /, two)\<close>, run \<open>shift_amount\<close> times.\<close>

fun halve_times :: "nat \<Rightarrow> Token \<Rightarrow> Expr \<Rightarrow> Expr" where
  "halve_times 0 op result = result"
| "halve_times (Suc i) op result =
     halve_times i op
       (Binary result (token SLASH ''/'' (line op) (column op))
          (Literal (Number 2) (token NUMBER ''2'' (line op) (column op))))"

text \<open>
  The three reductions return a null pointer when they do not apply (\<open>None\<close>); when they
  apply they set \<open>modified\<close>.
\<close>

definition reduce_multiplication :: "Expr \<Rightarrow> Expr \<Rightarrow> Token \<Rightarrow> Expr option" where
  "reduce_multiplication left right op =
     (case as_literal right of
        Some (Number val) \<Rightarrow>
          (if is_power_of_two val then Some (add_to_itself_times (log2_int \<lfloor>val\<rfloor>) left)
           else None)
      | _ \<Rightarrow> None)"

definition reduce_division :: "Expr \<Rightarrow> Expr \<Rightarrow> Token \<Rightarrow> Expr option" where
  "reduce_division left right op =
     (case as_literal right of
        Some (Number val) \<Rightarrow>
          (if is_power_of_two val \<and> val \<ge> 2 then Some (halve_times (log2_int \<lfloor>val\<rfloor>) op left)
           else None)
      | _ \<Rightarrow> None)"

definition reduce_modulo :: "Expr \<Rightarrow> Expr \<Rightarrow> Token \<Rightarrow> Expr option" where
  "reduce_modulo left right op =
     (case as_literal right of
        Some (Number val) \<Rightarrow>
          (if is_power_of_two val \<and> val \<ge> 2 then
             (let temp_div = Binary left (token SLASH ''/'' (line op) (column op)) right;
                  temp_mult = Binary temp_div (token STAR ''*'' (line op) (column op)) right
              in Some (Binary left (token MINUS ''-'' (line op) (column op)) temp_mult))
           else None)
      | _ \<Rightarrow> None)"

fun reduce_expr :: "Expr \<Rightarrow> Expr \<times> bool" where
  "reduce_expr (Binary l op r) =
     (let (left, m1) = reduce_expr l; (right, m2) = reduce_expr r;
          reduced =
            (if type op = STAR then reduce_multiplication left right op
             else if type op = SLASH then reduce_division left right op
             else if type op = PERCENT then reduce_modulo left right op
             else None)
      in case reduced of
           Some e \<Rightarrow> (e, True)
         | None \<Rightarrow> (Binary left op right, m1 \<or> m2))"
| "reduce_expr (Unary op r) = (let (right, m) = reduce_expr r in (Unary op right, m))"
| "reduce_expr (Assign name val) = (let (v, m) = reduce_expr val in (Assign name v, m))"
| "reduce_expr (Literal v t) = (Literal v t, False)"
| "reduce_expr (Variable name) = (Variable name, False)"
| "reduce_expr (Logical l op r) = (Logical l op r, False)"
| "reduce_expr (Call c p args) = (Call c p args, False)"
| "reduce_expr (Grouping e) = (Grouping e, False)"
| "reduce_expr (ArrayLiteral es b) = (ArrayLiteral es b, False)"
| "reduce_expr (IndexGet a i b) = (IndexGet a i b, False)"
| "reduce_expr (IndexSet a i v b) = (IndexSet a i v b, False)"
| "reduce_expr (DictLiteral ps b) = (DictLiteral ps b, False)"

fun reduce_stmt :: "Stmt \<Rightarrow> Stmt \<times> bool"
  and reduce_stmts :: "Stmt list \<Rightarrow> Stmt list \<times> bool" where
  "reduce_stmt NullStmt = (NullStmt, False)"
| "reduce_stmt (ExprStmt e) = (let (e', m) = reduce_expr e in (ExprStmt e', m))"
| "reduce_stmt (PrintStmt e keyword) = (let (e', m) = reduce_expr e in (PrintStmt e' keyword, m))"
| "reduce_stmt (VarStmt name initializer) =
     (case initializer of
        None \<Rightarrow> (VarStmt name None, False)
      | Some e \<Rightarrow> (let (e', m) = reduce_expr e in (VarStmt name (Some e'), m)))"
| "reduce_stmt (Block statements brace) =
     (let (new_stmts, m) = reduce_stmts statements in (Block new_stmts brace, m))"
| "reduce_stmt (IfStmt condition then_branch else_branch keyword) =
     (let (cond, m) = reduce_expr condition;
          (then_br, m1) = reduce_stmt then_branch;
          (else_br, m2) =
             (case else_branch of
                None \<Rightarrow> (None, False)
              | Some e \<Rightarrow> (let (e', m') = reduce_stmt e in (Some e', m')))
      in (IfStmt cond then_br else_br keyword, m \<or> m1 \<or> m2))"
| "reduce_stmt (WhileStmt condition body keyword) =
     (let (cond, m) = reduce_expr condition; (b, m1) = reduce_stmt body in
      (WhileStmt cond b keyword, m \<or> m1))"
| "reduce_stmt (FunctionStmt name params body) =
     (let (new_body, m) = reduce_stmts body in (FunctionStmt name params new_body, m))"
| "reduce_stmt (ReturnStmt keyword val) =
     (case val of
        None \<Rightarrow> (ReturnStmt keyword None, False)
      | Some e \<Rightarrow> (let (e', m) = reduce_expr e in (ReturnStmt keyword (Some e'), m)))"
| "reduce_stmt (BreakStmt keyword) = (BreakStmt keyword, False)"
| "reduce_stmt (SwitchStmt keyword condition cases default_case) =
     (SwitchStmt keyword condition cases default_case, False)"
| "reduce_stmt (UnsafeBlock keyword statements) = (UnsafeBlock keyword statements, False)"
| "reduce_stmt (LLVMInlineStmt keyword code vars) = (LLVMInlineStmt keyword code vars, False)"
| "reduce_stmt (ImportStmt keyword path path_token) = (ImportStmt keyword path path_token, False)"
| "reduce_stmts [] = ([], False)"
| "reduce_stmts (s # ss) =
     (let (s', m1) = reduce_stmt s; (ss', m2) = reduce_stmts ss in (s' # ss', m1 \<or> m2))"

definition StrengthReducer_run :: "Stmt list \<Rightarrow> Stmt list \<times> bool" where
  "StrengthReducer_run statements = reduce_stmts statements"

subsection \<open>FunctionInliner\<close>

text \<open>
  \<open>run\<close> fills \<open>function_definitions\<close> (\<open>collect_functions\<close>) and maps \<open>inline_stmt\<close>
  over the statements. \<open>inline_expr\<close> returns its argument, and \<open>should_inline\<close>,
  \<open>calculate_complexity\<close> and \<open>substitute_params\<close> are called from nowhere, so the table
  and \<open>inline_threshold\<close> have no influence on the result. \<open>modified\<close> is never set.
\<close>

fun collect_functions :: "Stmt list \<Rightarrow> (string \<times> Stmt) list \<Rightarrow> (string \<times> Stmt) list" where
  "collect_functions [] defs = defs"
| "collect_functions (stmt # rest) defs =
     collect_functions rest
       (case stmt of
          FunctionStmt name params body \<Rightarrow> AList.update (lexeme name) stmt defs
        | _ \<Rightarrow> defs)"

definition inline_expr :: "Expr \<Rightarrow> Expr" where
  "inline_expr expr = expr"

fun inline_stmt :: "Stmt \<Rightarrow> Stmt" and inline_stmts :: "Stmt list \<Rightarrow> Stmt list" where
  "inline_stmt NullStmt = NullStmt"
| "inline_stmt (ExprStmt e) = ExprStmt (inline_expr e)"
| "inline_stmt (Block statements brace) = Block (inline_stmts statements) brace"
| "inline_stmt (PrintStmt e keyword) = PrintStmt e keyword"
| "inline_stmt (VarStmt name initializer) = VarStmt name initializer"
| "inline_stmt (IfStmt condition then_branch else_branch keyword) =
     IfStmt condition then_branch else_branch keyword"
| "inline_stmt (WhileStmt condition body keyword) = WhileStmt condition body keyword"
| "inline_stmt (FunctionStmt name params body) = FunctionStmt name params body"
| "inline_stmt (ReturnStmt keyword val) = ReturnStmt keyword val"
| "inline_stmt (BreakStmt keyword) = BreakStmt keyword"
| "inline_stmt (SwitchStmt keyword condition cases default_case) =
     SwitchStmt keyword condition cases default_case"
| "inline_stmt (UnsafeBlock keyword statements) = UnsafeBlock keyword statements"
| "inline_stmt (LLVMInlineStmt keyword code vars) = LLVMInlineStmt keyword code vars"
| "inline_stmt (ImportStmt keyword path path_token) = ImportStmt keyword path path_token"
| "inline_stmts [] = []"
| "inline_stmts (s # ss) = inline_stmt s # inline_stmts ss"

definition FunctionInliner_run :: "OptimizerConfig \<Rightarrow> Stmt list \<Rightarrow> Stmt list \<times> bool" where
  "FunctionInliner_run config statements =
     (let function_definitions = collect_functions statements [] in
      (inline_stmts statements, False))"

subsection \<open>PeepholeOptimizer\<close>

text \<open>
  \<open>optimize_double_negation\<close> returns either the operand of the inner operator, a
  pointer different from its argument (\<open>Some\<close>), or its argument (\<open>None\<close>);
  \<open>optimize_expr\<close> compares the two pointers. \<open>optimize_boolean_operations\<close> returns
  its argument.
\<close>

definition optimize_double_negation :: "Expr \<Rightarrow> Expr option" where
  "optimize_double_negation expr =
     (case as_unary expr of
        Some (op, right) \<Rightarrow>
          (if type op = MINUS \<or> type op = BANG then
             (case as_unary right of
                Some (inner_op, inner_right) \<Rightarrow>
                  (if type inner_op = type op then Some inner_right else None)
              | None \<Rightarrow> None)
           else None)
      | None \<Rightarrow> None)"

definition peephole_optimize_expr :: "Expr \<Rightarrow> Expr \<times> bool" where
  "peephole_optimize_expr expr =
     (case optimize_double_negation expr of
        Some optimized \<Rightarrow> (optimized, True)
      | None \<Rightarrow> (expr, False))"

fun peephole_optimize_stmt :: "Stmt \<Rightarrow> Stmt \<times> bool"
  and peephole_optimize_stmts :: "Stmt list \<Rightarrow> Stmt list \<times> bool" where
  "peephole_optimize_stmt NullStmt = (NullStmt, False)"
| "peephole_optimize_stmt (ExprStmt e) =
     (let (e', m) = peephole_optimize_expr e in (ExprStmt e', m))"
| "peephole_optimize_stmt (PrintStmt e keyword) =
     (let (e', m) = peephole_optimize_expr e in (PrintStmt e' keyword, m))"
| "peephole_optimize_stmt (VarStmt name initializer) =
     (case initializer of
        None \<Rightarrow> (VarStmt name None, False)
      | Some e \<Rightarrow> (let (e', m) = peephole_optimize_expr e in (VarStmt name (Some e'), m)))"
| "peephole_optimize_stmt (Block statements brace) =
     (let (new_stmts, m) = peephole_optimize_stmts statements in (Block new_stmts brace, m))"
| "peephole_optimize_stmt (IfStmt condition then_branch else_branch keyword) =
     (IfStmt condition then_branch else_branch keyword, False)"
| "peephole_optimize_stmt (WhileStmt condition body keyword) =
     (WhileStmt condition body keyword, False)"
| "peephole_optimize_stmt (FunctionStmt name params body) =
     (FunctionStmt name params body, False)"
| "peephole_optimize_stmt (ReturnStmt keyword val) = (ReturnStmt keyword val, False)"
| "peephole_optimize_stmt (BreakStmt keyword) = (BreakStmt keyword, False)"
| "peephole_optimize_stmt (SwitchStmt keyword condition cases default_case) =
     (SwitchStmt keyword condition cases default_case, False)"
| "peephole_optimize_stmt (UnsafeBlock keyword statements) =
     (UnsafeBlock keyword statements, False)"
| "peephole_optimize_stmt (LLVMInlineStmt keyword code vars) =
     (LLVMInlineStmt keyword code vars, False)"
| "peephole_optimize_stmt (ImportStmt keyword path path_token) =
     (ImportStmt keyword path path_token, False)"
| "peephole_optimize_stmts [] = ([], False)"
| "peephole_optimize_stmts (s # ss) =
     (let (s', m1) = peephole_optimize_stmt s; (ss', m2) = peephole_optimize_stmts ss in
      (s' # ss', m1 \<or> m2))"

definition PeepholeOptimizer_run :: "Stmt list \<Rightarrow> Stmt list \<times> bool" where
  "PeepholeOptimizer_run statements = peephole_optimize_stmts statements"

subsection \<open>Optimizer\<close>

datatype OptimizationPass =
    ConstantFolder | AlgebraicSimplifier | DeadCodeEliminator | CommonSubexpressionEliminator
  | LoopOptimizer | StrengthReducer | FunctionInliner | PeepholeOptimizer

definition initialize_passes :: "OptimizerConfig \<Rightarrow> OptimizationPass list" where
  "initialize_passes config =
     (if constant_folding config then [ConstantFolder] else []) @
     (if algebraic_simplification config then [AlgebraicSimplifier] else []) @
     (if dead_code_elimination config then [DeadCodeEliminator] else []) @
     (if common_subexpression_elimination config then [CommonSubexpressionEliminator] else []) @
     (if loop_unrolling config \<or> loop_invariant_code_motion config then [LoopOptimizer] else []) @
     (if strength_reduction config then [StrengthReducer] else []) @
     (if function_inlining config then [FunctionInliner] else []) @
     (if peephole_optimization config then [PeepholeOptimizer] else [])"

text \<open>\<open>pass->run(current)\<close> followed by \<open>pass->was_modified()\<close>.\<close>

fun run :: "OptimizerConfig \<Rightarrow> OptimizationPass \<Rightarrow> Stmt list \<Rightarrow> Stmt list \<times> bool" where
  "run config ConstantFolder statements = ConstantFolder_run statements"
| "run config AlgebraicSimplifier statements = AlgebraicSimplifier_run statements"
| "run config DeadCodeEliminator statements = DeadCodeEliminator_run statements"
| "run config CommonSubexpressionEliminator statements =
     CommonSubexpressionEliminator_run statements"
| "run config LoopOptimizer statements = LoopOptimizer_run config statements"
| "run config StrengthReducer statements = StrengthReducer_run statements"
| "run config FunctionInliner statements = FunctionInliner_run config statements"
| "run config PeepholeOptimizer statements = PeepholeOptimizer_run statements"

text \<open>One sweep: the loop over \<open>passes\<close>, returning the tree and \<open>any_modified\<close>.\<close>

fun run_passes :: "OptimizerConfig \<Rightarrow> OptimizationPass list \<Rightarrow> Stmt list \<Rightarrow> Stmt list \<times> bool" where
  "run_passes config [] current = (current, False)"
| "run_passes config (pass # passes) current =
     (let (current', m1) = run config pass current;
          (current'', m2) = run_passes config passes current' in
      (current'', m1 \<or> m2))"

definition max_iterations :: nat where
  "max_iterations = 10"

text \<open>The \<open>while (iteration < max_iterations)\<close> loop of \<open>Optimizer::optimize\<close>.\<close>

function optimize_loop :: "OptimizerConfig \<Rightarrow> OptimizationPass list \<Rightarrow> nat \<Rightarrow> Stmt list \<Rightarrow> Stmt list" where
  "optimize_loop config passes iteration current =
     (if iteration < max_iterations then
        (let (current', any_modified) = run_passes config passes current in
         if \<not> any_modified then current'
         else optimize_loop config passes (iteration + 1) current')
      else current)"
  by pat_completeness auto
termination
  by (relation "measure (\<lambda>(config, passes, iteration, current). max_iterations - iteration)") auto

definition optimize :: "OptimizerConfig \<Rightarrow> Stmt list \<Rightarrow> Stmt list" where
  "optimize config statements = optimize_loop config (initialize_passes config) 0 statements"

section \<open>Parser: the \<open>for\<close> statement (parser.cpp)\<close>

text \<open>
  The parser object: the token vector, the position in it and the nesting counters. A
  \<open>ParserError\<close> is thrown as a C++ exception; the parser object keeps the state it had
  at the throw, so a parsing function returns the error or its result together with the
  parser state.
\<close>

record Parser =
  tokens :: "Token list"
  source :: string
  current :: nat
  loop_depth :: int
  block_depth :: int
  function_depth :: int
  in_unsafe_block :: bool





definition previous :: "Parser \<Rightarrow> Token" where
  "previous p = tokens p ! (current p - 1)"











section \<open>Memory-safety analyzer (memory_analyzer.hpp, memory_analyzer.cpp)\<close>

subsection \<open>Data\<close>

datatype MemoryState = UNINITIALIZED | ALLOCATED | FREED | INVALID | UNKNOWN

text \<open>\<open>PointerState::UNKNOWN\<close> is \<open>UNKNOWN_PTR\<close> here: the two enums share the name.\<close>

datatype PointerState = NULL_PTR | VALID | DANGLING | UNKNOWN_PTR

text \<open>
  \<open>aliases\<close> is an unordered set of names, a list without duplicates here.
  \<open>size_expr\<close> is an optional of a pointer that may itself be null.
\<close>

record AllocationInfo =
  var_name :: string
  allocation_token :: Token
  state :: MemoryState
  freed_at :: "Token option"
  size_expr :: "Expr option option"
  is_array :: bool
  ref_count :: int
  aliases :: "string list"

text \<open>The four-argument constructor of \<open>AllocationInfo\<close>.\<close>

definition new_AllocationInfo :: "string \<Rightarrow> Token \<Rightarrow> MemoryState \<Rightarrow> bool \<Rightarrow> AllocationInfo" where
  "new_AllocationInfo name tok s array =
     \<lparr>var_name = name, allocation_token = tok, state = s, freed_at = None, size_expr = None,
      is_array = array, ref_count = 0, aliases = []\<rparr>"

text \<open>\<open>AllocationInfo::operator==\<close> compares four of the eight members.\<close>

definition AllocationInfo_eq :: "AllocationInfo \<Rightarrow> AllocationInfo \<Rightarrow> bool" where
  "AllocationInfo_eq a b =
     (var_name a = var_name b \<and> state a = state b \<and> is_array a = is_array b
      \<and> ref_count a = ref_count b)"

record PointerInfo =
  ptr_var_name :: string
  declaration_token :: Token
  pointee_type :: string
  ptr_state :: PointerState
  points_to :: "string option"
  level :: int

definition new_PointerInfo :: "string \<Rightarrow> Token \<Rightarrow> string \<Rightarrow> PointerState \<Rightarrow> int \<Rightarrow> PointerInfo" where
  "new_PointerInfo name tok ty s lvl =
     \<lparr>ptr_var_name = name, declaration_token = tok, pointee_type = ty, ptr_state = s,
      points_to = None, level = lvl\<rparr>"

datatype NodeType =
    ENTRY | EXIT | STATEMENT | BRANCH | MERGE | LOOP_HEADER | LOOP_BODY | LOOP_EXIT
  | FUNCTION_CALL | FUNCTION_RETURN

text \<open>
  The nodes of a control-flow graph live in the vector \<open>cfg_nodes\<close> of the analyzer, and a
  \<open>CFGNodePtr\<close> is the index of the node in that vector (\<open>None\<close> is the null pointer).
  The maps \<open>allocations_in\<close> and \<open>allocations_out\<close> are association lists with one
  entry for each key; the order in which the source iterates over an unordered map or set
  is not specified, the model iterates in the order of the list.
\<close>

type_synonym allocation_map = "(string \<times> AllocationInfo) list"

record ControlFlowNode =
  node_type :: NodeType
  statement :: Stmt
  expression :: "Expr option"
  successors :: "nat list"
  predecessors :: "nat list"
  allocations_in :: allocation_map
  allocations_out :: allocation_map
  freed_vars :: "string list"
  node_id :: int

definition new_ControlFlowNode :: "NodeType \<Rightarrow> int \<Rightarrow> ControlFlowNode" where
  "new_ControlFlowNode t ident =
     \<lparr>node_type = t, statement = NullStmt, expression = None, successors = [],
      predecessors = [], allocations_in = [], allocations_out = [], freed_vars = [],
      node_id = ident\<rparr>"

record ControlFlowPath =
  nodes :: "nat list"
  final_allocations :: allocation_map
  path_freed_vars :: "string list"
  is_feasible :: bool

datatype MemorySafetyError =
  MemorySafetyError (message: string) (error_token: Token) (hint: "string option")
    (error_type: string)

text \<open>The default \<open>err_type\<close> of the constructor of \<open>MemorySafetyError\<close>.\<close>

definition MEMORY_SAFETY_ERROR :: string where
  "MEMORY_SAFETY_ERROR = ''MEMORY SAFETY ERROR''"

text \<open>
  The analyzer object. The two scope stacks are vectors of sets used with \<open>push_back\<close>,
  \<open>back\<close> and \<open>pop_back\<close>: lists whose head is the back of the vector.
\<close>

record MemorySafetyAnalyzer =
  allocations :: allocation_map
  pointers :: "(string \<times> PointerInfo) list"
  current_scope_vars :: "string list list"
  freed_in_scope :: "string list list"
  errors :: "MemorySafetyError list"
  warnings :: "string list"
  strict_mode :: bool
  next_cfg_node_id :: int
  cfg_nodes :: "ControlFlowNode list"
  function_entry_nodes :: "(string \<times> nat) list"
  function_exit_nodes :: "(string \<times> nat) list"

text \<open>The constructor.\<close>

definition new_MemorySafetyAnalyzer :: MemorySafetyAnalyzer where
  "new_MemorySafetyAnalyzer =
     \<lparr>allocations = [], pointers = [], current_scope_vars = [[]], freed_in_scope = [[]],
      errors = [], warnings = [], strict_mode = True, next_cfg_node_id = 0, cfg_nodes = [],
      function_entry_nodes = [], function_exit_nodes = []\<rparr>"

text \<open>
  What a member function of the analyzer does: it returns, or it throws a
  \<open>MemorySafetyError\<close>, in both cases leaving the analyzer in some state (the exception is
  caught in \<open>analyze\<close>, which then reads that state), or it does not return. The
  \<open>optional<string>\<close> that the expression functions return is discarded by every caller
  and is not modelled.
\<close>

datatype outcome = Returned MemorySafetyAnalyzer | Thrown MemorySafetyError MemorySafetyAnalyzer | Diverged

definition and_then :: "outcome \<Rightarrow> (MemorySafetyAnalyzer \<Rightarrow> outcome) \<Rightarrow> outcome" where
  "and_then r f = (case r of Returned a \<Rightarrow> f a | Thrown e a \<Rightarrow> Thrown e a | Diverged \<Rightarrow> Diverged)"

lemma and_then_cong [fundef_cong]:
  "r = r' \<Longrightarrow> (\<And>a. r' = Returned a \<Longrightarrow> f a = f' a) \<Longrightarrow> and_then r f = and_then r' f'"
  by (simp add: and_then_def split: outcome.splits)

definition quote :: string where
  "quote = [CHR 0x27]"

text \<open>\<open>std::to_string\<close> of an \<open>int\<close> or a \<open>size_t\<close>.\<close>

definition int_to_string :: "int \<Rightarrow> string" where
  "int_to_string i = (if i < 0 then ''-'' @ digits_of_nat (nat (- i)) else digits_of_nat (nat i))"

definition memory_state_to_string :: "MemoryState \<Rightarrow> string" where
  "memory_state_to_string s =
     (case s of UNINITIALIZED \<Rightarrow> ''uninitialized'' | ALLOCATED \<Rightarrow> ''allocated''
      | FREED \<Rightarrow> ''freed'' | INVALID \<Rightarrow> ''invalid'' | UNKNOWN \<Rightarrow> ''unknown'')"

subsection \<open>Phase A: the walk over the tree\<close>

text \<open>
  \<open>enter_scope\<close> pushes an empty set on both stacks. \<open>insert_back\<close> is
  \<open>stack.back().insert(name)\<close>; both stacks hold one set from the constructor on and
  \<open>exit_scope\<close> never pops the last one, so \<open>back()\<close> is always defined.
\<close>

definition enter_scope :: "MemorySafetyAnalyzer \<Rightarrow> MemorySafetyAnalyzer" where
  "enter_scope a =
     a\<lparr>current_scope_vars := [] # current_scope_vars a, freed_in_scope := [] # freed_in_scope a\<rparr>"

definition insert_back :: "string \<Rightarrow> string list list \<Rightarrow> string list list" where
  "insert_back name stack =
     (case stack of [] \<Rightarrow> [] | b # rest \<Rightarrow> List.insert name b # rest)"

definition back_of :: "string list list \<Rightarrow> string list" where
  "back_of stack = (case stack of [] \<Rightarrow> [] | b # rest \<Rightarrow> b)"

text \<open>The loop of \<open>exit_scope\<close> over the names declared in the scope that was popped.\<close>

fun exit_scope_loop :: "string list \<Rightarrow> string list \<Rightarrow> MemorySafetyAnalyzer \<Rightarrow> outcome" where
  "exit_scope_loop [] freed a = Returned a"
| "exit_scope_loop (var # scope_vars) freed a =
     (case map_of (allocations a) var of
        Some alloc \<Rightarrow>
          (if state alloc = ALLOCATED \<and> var \<notin> set freed then
             (if strict_mode a then
                Thrown (MemorySafetyError
                          (''Memory leak: Variable '' @ quote @ var @ quote @
                           '' goes out of scope without being freed'')
                          (allocation_token alloc)
                          (Some (''Add '' @ quote @ ''free('' @ var @ '');'' @ quote @
                                 '' before the end of this scope''))
                          ''MEMORY LEAK'') a
              else exit_scope_loop scope_vars freed
                     (a\<lparr>warnings := warnings a @ [''Potential memory leak: '' @ var]\<rparr>))
           else exit_scope_loop scope_vars freed a)
      | None \<Rightarrow> exit_scope_loop scope_vars freed a)"

definition exit_scope :: "MemorySafetyAnalyzer \<Rightarrow> outcome" where
  "exit_scope a =
     (if length (current_scope_vars a) > 1 then
        (let scope_vars = back_of (current_scope_vars a);
             freed = back_of (freed_in_scope a);
             a' = a\<lparr>current_scope_vars := tl (current_scope_vars a),
                     freed_in_scope := tl (freed_in_scope a)\<rparr>
         in exit_scope_loop scope_vars freed a')
      else Returned a)"

text \<open>The name of the function called, when the callee is a \<open>Variable\<close>.\<close>

definition callee_name :: "Expr \<Rightarrow> string option" where
  "callee_name callee = (case as_variable callee of Some name \<Rightarrow> Some (lexeme name) | None \<Rightarrow> None)"

definition is_allocator :: "string \<Rightarrow> bool" where
  "is_allocator func_name =
     (func_name = ''malloc'' \<or> func_name = ''calloc'' \<or> func_name = ''realloc'')"

text \<open>\<open>dynamic_cast<Call*>\<close>.\<close>

definition as_call :: "Expr \<Rightarrow> (Expr \<times> Token \<times> Expr list) option" where
  "as_call e = (case e of Call callee paren arguments \<Rightarrow> Some (callee, paren, arguments) | _ \<Rightarrow> None)"

text \<open>The loop of \<open>update_pointer_states_on_free\<close> over the aliases of an allocation.\<close>

fun mark_dangling :: "string list \<Rightarrow> (string \<times> PointerInfo) list \<Rightarrow> (string \<times> PointerInfo) list" where
  "mark_dangling [] ptrs = ptrs"
| "mark_dangling (alias # rest) ptrs =
     mark_dangling rest
       (case map_of ptrs alias of
          Some info \<Rightarrow> AList.update alias (info\<lparr>ptr_state := DANGLING\<rparr>) ptrs
        | None \<Rightarrow> ptrs)"

definition update_pointer_states_on_free :: "string \<Rightarrow> MemorySafetyAnalyzer \<Rightarrow> MemorySafetyAnalyzer" where
  "update_pointer_states_on_free var a =
     (case map_of (allocations a) var of
        Some alloc \<Rightarrow> a\<lparr>pointers := mark_dangling (aliases alloc) (pointers a)\<rparr>
      | None \<Rightarrow> a)"

text \<open>\<open>"... line " + std::to_string(alloc.freed_at->line)\<close>, or the text without a line.\<close>

definition freed_hint :: "string \<Rightarrow> string \<Rightarrow> AllocationInfo \<Rightarrow> string" where
  "freed_hint with_line without_line alloc =
     (case freed_at alloc of
        Some t \<Rightarrow> with_line @ int_to_string (line t)
      | None \<Rightarrow> without_line)"

text \<open>The branch of \<open>analyze_call\<close> for a call of \<open>free\<close>.\<close>

definition analyze_free :: "Token \<Rightarrow> Expr list \<Rightarrow> MemorySafetyAnalyzer \<Rightarrow> outcome" where
  "analyze_free paren arguments a =
     (if length arguments \<noteq> 1 then
        Thrown (MemorySafetyError
                  (''free() expects exactly 1 argument, got '' @ int_to_string (int (length arguments)))
                  paren (Some ''Usage: free(pointer);'') MEMORY_SAFETY_ERROR) a
      else case as_variable (arguments ! 0) of
        None \<Rightarrow> Returned a
      | Some arg_name \<Rightarrow>
          (let var = lexeme arg_name in
           case map_of (allocations a) var of
             None \<Rightarrow>
               Thrown (MemorySafetyError
                         (''Attempting to free non-allocated memory: '' @ quote @ var @ quote)
                         arg_name
                         (Some ''Only pointers returned by malloc/calloc/realloc can be freed'')
                         ''INVALID FREE'') a
           | Some alloc \<Rightarrow>
               (if state alloc = FREED then
                  Thrown (MemorySafetyError
                            (''Double-free detected: '' @ quote @ var @ quote @
                             '' has already been freed'')
                            arg_name
                            (Some (freed_hint ''Previously freed at line '' ''Previously freed'' alloc))
                            ''DOUBLE-FREE'') a
                else if state alloc \<noteq> ALLOCATED then
                  Thrown (MemorySafetyError
                            (''Attempting to free memory in invalid state: '' @ quote @ var @ quote)
                            arg_name
                            (Some (''Current state: '' @ memory_state_to_string (state alloc)))
                            MEMORY_SAFETY_ERROR) a
                else
                  Returned
                    (update_pointer_states_on_free var
                       (a\<lparr>allocations :=
                            AList.update var (alloc\<lparr>state := FREED, freed_at := Some arg_name\<rparr>)
                              (allocations a),
                          freed_in_scope := insert_back var (freed_in_scope a)\<rparr>)))))"

text \<open>The branch of \<open>analyze_call\<close> for a call of \<open>deref\<close>: two groups of checks.\<close>

definition deref_allocation_check :: "Token \<Rightarrow> MemorySafetyAnalyzer \<Rightarrow> outcome" where
  "deref_allocation_check arg_name a =
     (let var = lexeme arg_name in
      case map_of (allocations a) var of
        None \<Rightarrow> Returned a
      | Some alloc \<Rightarrow>
          (if state alloc = FREED then
             Thrown (MemorySafetyError
                       (''Use-after-free: Dereferencing freed pointer '' @ quote @ var @ quote)
                       arg_name
                       (Some (freed_hint ''Pointer was freed at line '' ''Pointer was freed'' alloc))
                       ''USE-AFTER-FREE'') a
           else if state alloc = UNINITIALIZED then
             Thrown (MemorySafetyError
                       (''Dereferencing uninitialized pointer '' @ quote @ var @ quote)
                       arg_name
                       (Some ''Initialize the pointer before dereferencing'')
                       MEMORY_SAFETY_ERROR) a
           else Returned a))"

definition deref_pointer_check :: "Token \<Rightarrow> MemorySafetyAnalyzer \<Rightarrow> outcome" where
  "deref_pointer_check arg_name a =
     (let var = lexeme arg_name in
      case map_of (pointers a) var of
        None \<Rightarrow> Returned a
      | Some ptr_info \<Rightarrow>
          (if ptr_state ptr_info = DANGLING then
             Thrown (MemorySafetyError
                       (''Use-after-free: Dereferencing dangling pointer '' @ quote @ var @ quote)
                       arg_name
                       (Some ''The memory this pointer refers to has been freed'')
                       ''USE-AFTER-FREE'') a
           else if ptr_state ptr_info = NULL_PTR then
             Thrown (MemorySafetyError
                       (''Null pointer dereference: '' @ quote @ var @ quote @ '' is null'')
                       arg_name
                       (Some ''Check if pointer is null before dereferencing'')
                       ''NULL POINTER DEREFERENCE'') a
           else Returned a))"

definition analyze_deref :: "Token \<Rightarrow> Expr list \<Rightarrow> MemorySafetyAnalyzer \<Rightarrow> outcome" where
  "analyze_deref paren arguments a =
     (if length arguments \<noteq> 1 then
        Thrown (MemorySafetyError
                  (''deref() expects exactly 1 argument, got '' @ int_to_string (int (length arguments)))
                  paren (Some ''Usage: deref(pointer);'') MEMORY_SAFETY_ERROR) a
      else case as_variable (arguments ! 0) of
        None \<Rightarrow> Returned a
      | Some arg_name \<Rightarrow> and_then (deref_allocation_check arg_name a) (deref_pointer_check arg_name))"

definition check_variable_access :: "Token \<Rightarrow> MemorySafetyAnalyzer \<Rightarrow> outcome" where
  "check_variable_access name a =
     (let var = lexeme name in
      case (case map_of (allocations a) var of
              Some alloc \<Rightarrow> (if state alloc = FREED then Some alloc else None)
            | None \<Rightarrow> None) of
        Some alloc \<Rightarrow>
          Thrown (MemorySafetyError
                    (''Use-after-free: Accessing freed memory '' @ quote @ var @ quote)
                    name
                    (Some (freed_hint ''Memory was freed at line '' ''Memory was freed'' alloc))
                    ''USE-AFTER-FREE'') a
      | None \<Rightarrow>
          (case map_of (pointers a) var of
             Some ptr_info \<Rightarrow>
               (if ptr_state ptr_info = DANGLING then
                  Returned (a\<lparr>warnings := warnings a @
                     [''Warning: Accessing dangling pointer '' @ quote @ var @ quote @
                      '' at line '' @ int_to_string (line name)]\<rparr>)
                else Returned a)
           | None \<Rightarrow> Returned a))"

text \<open>The test at the head of \<open>analyze_assign\<close>: the reassignment of a live allocation.\<close>

definition reassigns_allocation :: "Token \<Rightarrow> Expr \<Rightarrow> MemorySafetyAnalyzer \<Rightarrow> bool" where
  "reassigns_allocation name val a =
     (case map_of (allocations a) (lexeme name) of
        Some alloc \<Rightarrow>
          (state alloc = ALLOCATED \<and>
           (case as_call val of
              Some (callee, paren, arguments) \<Rightarrow>
                (case callee_name callee of Some func_name \<Rightarrow> is_allocator func_name | None \<Rightarrow> False)
            | None \<Rightarrow> False))
      | None \<Rightarrow> False)"

function (sequential) analyze_expr :: "Expr \<Rightarrow> MemorySafetyAnalyzer \<Rightarrow> outcome"
  and analyze_call :: "Expr \<Rightarrow> Token \<Rightarrow> Expr list \<Rightarrow> MemorySafetyAnalyzer \<Rightarrow> outcome"
  and analyze_assign :: "Token \<Rightarrow> Expr \<Rightarrow> MemorySafetyAnalyzer \<Rightarrow> outcome"
  and analyze_unary :: "Token \<Rightarrow> Expr \<Rightarrow> MemorySafetyAnalyzer \<Rightarrow> outcome"
  and analyze_exprs :: "Expr list \<Rightarrow> MemorySafetyAnalyzer \<Rightarrow> outcome" where
  "analyze_expr (Call callee paren arguments) a = analyze_call callee paren arguments a"
| "analyze_expr (Variable name) a = check_variable_access name a"
| "analyze_expr (Assign name val) a = analyze_assign name val a"
| "analyze_expr (Binary l op r) a = and_then (analyze_expr l a) (analyze_expr r)"
| "analyze_expr (Unary op r) a = analyze_unary op r a"
| "analyze_expr (Grouping e) a = analyze_expr e a"
| "analyze_expr (Logical l op r) a = and_then (analyze_expr l a) (analyze_expr r)"
| "analyze_expr (ArrayLiteral elements bracket) a = analyze_exprs elements a"
| "analyze_expr (IndexGet array index bracket) a =
     and_then (analyze_expr array a) (analyze_expr index)"
| "analyze_expr (IndexSet array index val bracket) a =
     and_then (analyze_expr array a)
       (\<lambda>a1. and_then (analyze_expr index a1) (analyze_expr val))"
| "analyze_expr (Literal v t) a = Returned a"
| "analyze_expr (DictLiteral pairs brace) a = Returned a"
| "analyze_call callee paren arguments a =
     (case callee_name callee of
        None \<Rightarrow> Returned a
      | Some func_name \<Rightarrow>
          (if func_name = ''free'' then analyze_free paren arguments a
           else
             and_then
               (if func_name = ''deref'' then analyze_deref paren arguments a else Returned a)
               (\<lambda>a1. if func_name \<noteq> ''free'' \<and> func_name \<noteq> ''deref'' \<and>
                         func_name \<noteq> ''malloc'' \<and> func_name \<noteq> ''calloc'' \<and>
                         func_name \<noteq> ''realloc'' \<and> func_name \<noteq> ''addr_of''
                      then analyze_exprs arguments a1 else Returned a1)))"
| "analyze_assign name val a =
     (if reassigns_allocation name val a then
        Thrown (MemorySafetyError
                  (''Memory leak: Reassigning '' @ quote @ lexeme name @ quote @
                   '' without freeing previous allocation'')
                  name
                  (Some (''Free the previous allocation first: free('' @ lexeme name @ '');''))
                  ''MEMORY LEAK'') a
      else analyze_expr val a)"
| "analyze_unary op r a = analyze_expr r a"
| "analyze_exprs [] a = Returned a"
| "analyze_exprs (e # es) a = and_then (analyze_expr e a) (analyze_exprs es)"
  by pat_completeness auto
termination
  by (relation "measure (\<lambda>x. case x of
          Inl (Inl (e, a)) \<Rightarrow> 2 * size e
        | Inl (Inr (callee, paren, arguments, a)) \<Rightarrow> 2 * size_list size arguments + 1
        | Inr (Inl (name, val, a)) \<Rightarrow> 2 * size val + 1
        | Inr (Inr (Inl (op, r, a))) \<Rightarrow> 2 * size r + 1
        | Inr (Inr (Inr (es, a))) \<Rightarrow> 2 * size_list size es)") auto

subsection \<open>Phase B: construction of the control-flow graph\<close>

definition create_cfg_node :: "NodeType \<Rightarrow> MemorySafetyAnalyzer \<Rightarrow> nat \<times> MemorySafetyAnalyzer" where
  "create_cfg_node t a =
     (length (cfg_nodes a),
      a\<lparr>cfg_nodes := cfg_nodes a @ [new_ControlFlowNode t (next_cfg_node_id a)],
        next_cfg_node_id := next_cfg_node_id a + 1\<rparr>)"

definition connect_cfg_nodes :: "nat \<Rightarrow> nat \<Rightarrow> MemorySafetyAnalyzer \<Rightarrow> MemorySafetyAnalyzer" where
  "connect_cfg_nodes from to a =
     (let ns = cfg_nodes a;
          ns1 = ns[from := (ns ! from)\<lparr>successors := successors (ns ! from) @ [to]\<rparr>];
          ns2 = ns1[to := (ns1 ! to)\<lparr>predecessors := predecessors (ns1 ! to) @ [from]\<rparr>]
      in a\<lparr>cfg_nodes := ns2\<rparr>)"

text \<open>\<open>node->statement = stmt; node->expression = expr\<close> on a node just created.\<close>

definition set_node_source :: "nat \<Rightarrow> Stmt \<Rightarrow> Expr option \<Rightarrow> MemorySafetyAnalyzer \<Rightarrow> MemorySafetyAnalyzer" where
  "set_node_source n stmt expr a =
     a\<lparr>cfg_nodes := (cfg_nodes a)[n := (cfg_nodes a ! n)\<lparr>statement := stmt, expression := expr\<rparr>]\<rparr>"

text \<open>\<open>body ? body : other\<close>.\<close>

definition node_or :: "nat option \<Rightarrow> nat \<Rightarrow> nat" where
  "node_or body other = (case body of Some b \<Rightarrow> b | None \<Rightarrow> other)"

text \<open>
  \<open>build_cfg_block_loop\<close> is the \<open>for\<close> loop of \<open>build_cfg_block\<close> with its two local
  variables \<open>first_node\<close> and \<open>prev_node\<close>.
\<close>

function (sequential)
      build_cfg_stmt :: "Stmt \<Rightarrow> nat \<Rightarrow> MemorySafetyAnalyzer \<Rightarrow> nat option \<times> MemorySafetyAnalyzer"
  and build_cfg_block :: "Stmt list \<Rightarrow> nat \<Rightarrow> MemorySafetyAnalyzer \<Rightarrow> nat option \<times> MemorySafetyAnalyzer"
  and build_cfg_block_loop ::
        "Stmt list \<Rightarrow> nat \<Rightarrow> nat option \<Rightarrow> nat option \<Rightarrow> MemorySafetyAnalyzer \<Rightarrow>
         (nat option \<times> nat option) \<times> MemorySafetyAnalyzer" where
  "build_cfg_stmt (IfStmt condition then_branch else_branch keyword) exit_node a =
     (let (branch_node, a1) = create_cfg_node BRANCH a;
          a2 = set_node_source branch_node (IfStmt condition then_branch else_branch keyword)
                 (Some condition) a1;
          (merge_node, a3) = create_cfg_node MERGE a2;
          (then_body, a4) = build_cfg_stmt then_branch merge_node a3;
          a5 = connect_cfg_nodes branch_node (node_or then_body merge_node) a4
      in case else_branch of
           Some e \<Rightarrow>
             (let (else_body, a6) = build_cfg_stmt e merge_node a5 in
              (Some branch_node, connect_cfg_nodes branch_node (node_or else_body merge_node) a6))
         | None \<Rightarrow> (Some branch_node, connect_cfg_nodes branch_node merge_node a5))"
| "build_cfg_stmt (WhileStmt condition body keyword) exit_node a =
     (let (loop_header, a1) = create_cfg_node LOOP_HEADER a;
          a2 = set_node_source loop_header (WhileStmt condition body keyword) (Some condition) a1;
          (loop_exit, a3) = create_cfg_node LOOP_EXIT a2;
          (loop_body, a4) = build_cfg_stmt body loop_header a3;
          a5 = connect_cfg_nodes loop_header (node_or loop_body loop_header) a4
      in (Some loop_header, connect_cfg_nodes loop_header loop_exit a5))"
| "build_cfg_stmt (Block statements brace) exit_node a = build_cfg_block statements exit_node a"
| "build_cfg_stmt stmt exit_node a =
     (let (stmt_node, a1) = create_cfg_node STATEMENT a in
      (Some stmt_node, set_node_source stmt_node stmt None a1))"
| "build_cfg_block [] exit_node a = (None, a)"
| "build_cfg_block (s # ss) exit_node a =
     (let ((first_node, prev_node), a1) = build_cfg_block_loop (s # ss) exit_node None None a
      in (first_node,
          case prev_node of Some p \<Rightarrow> connect_cfg_nodes p exit_node a1 | None \<Rightarrow> a1))"
| "build_cfg_block_loop [] exit_node first_node prev_node a = ((first_node, prev_node), a)"
| "build_cfg_block_loop (stmt # rest) exit_node first_node prev_node a =
     (let (stmt_node, a1) = build_cfg_stmt stmt exit_node a;
          first_node' = (case first_node of None \<Rightarrow> stmt_node | Some f \<Rightarrow> Some f);
          a2 = (case (prev_node, stmt_node) of
                  (Some p, Some n) \<Rightarrow> connect_cfg_nodes p n a1
                | _ \<Rightarrow> a1)
      in build_cfg_block_loop rest exit_node first_node' stmt_node a2)"
  by pat_completeness auto
termination
  by (relation "measure (\<lambda>x. case x of
          Inl (s, e, a) \<Rightarrow> 2 * size s
        | Inr (Inl (ss, e, a)) \<Rightarrow> 2 * size_list size ss + 1
        | Inr (Inr (ss, e, f, p, a)) \<Rightarrow> 2 * size_list size ss)") auto

definition build_cfg :: "Stmt list \<Rightarrow> MemorySafetyAnalyzer \<Rightarrow> nat option \<times> MemorySafetyAnalyzer" where
  "build_cfg statements a =
     (if statements = [] then (None, a)
      else (let (entry, a1) = create_cfg_node ENTRY a;
                (exit, a2) = create_cfg_node EXIT a1;
                (body, a3) = build_cfg_block statements exit a2
            in (Some entry, connect_cfg_nodes entry (node_or body exit) a3)))"

subsection \<open>Phase C: the worklist dataflow\<close>

text \<open>
  The two nested loops at the head of \<open>propagate_allocations\<close>: every entry of every
  predecessor's \<open>allocations_out\<close> is assigned into \<open>allocations_in\<close>, the predecessors
  in the order of the vector \<open>predecessors\<close>.
\<close>

definition assign_all :: "allocation_map \<Rightarrow> allocation_map \<Rightarrow> allocation_map" where
  "assign_all target entries = foldl (\<lambda>m (var, alloc). AList.update var alloc m) target entries"

definition incoming_allocations :: "ControlFlowNode list \<Rightarrow> nat list \<Rightarrow> allocation_map" where
  "incoming_allocations ns preds = foldl (\<lambda>m pred. assign_all m (allocations_out (ns ! pred))) [] preds"

text \<open>
  The second half of \<open>propagate_allocations\<close>: the effect of the node's statement on
  \<open>allocations_out\<close> and \<open>freed_vars\<close>.
\<close>

definition transfer :: "Stmt \<Rightarrow> allocation_map \<times> string list \<Rightarrow> allocation_map \<times> string list" where
  "transfer stmt out_freed =
     (let (out, freed) = out_freed in
      case stmt of
        VarStmt name initializer \<Rightarrow>
          (case (case initializer of Some e \<Rightarrow> as_call e | None \<Rightarrow> None) of
             Some (callee, paren, arguments) \<Rightarrow>
               (case callee_name callee of
                  Some func_name \<Rightarrow>
                    (if is_allocator func_name then
                       (AList.update (lexeme name)
                          (new_AllocationInfo (lexeme name) name ALLOCATED False) out, freed)
                     else (out, freed))
                | None \<Rightarrow> (out, freed))
           | None \<Rightarrow> (out, freed))
      | ExprStmt e \<Rightarrow>
          (case as_call e of
             Some (callee, paren, arguments) \<Rightarrow>
               (if callee_name callee = Some ''free'' \<and> arguments \<noteq> [] then
                  (case as_variable (arguments ! 0) of
                     Some arg \<Rightarrow>
                       (case map_of out (lexeme arg) of
                          Some alloc \<Rightarrow>
                            (AList.update (lexeme arg) (alloc\<lparr>state := FREED\<rparr>) out,
                             List.insert (lexeme arg) freed)
                        | None \<Rightarrow> (out, freed))
                   | None \<Rightarrow> (out, freed))
                else (out, freed))
           | None \<Rightarrow> (out, freed))
      | _ \<Rightarrow> (out, freed))"

definition propagate_allocations :: "nat \<Rightarrow> MemorySafetyAnalyzer \<Rightarrow> MemorySafetyAnalyzer" where
  "propagate_allocations node a =
     (let ns = cfg_nodes a;
          n = ns ! node;
          in_map = incoming_allocations ns (predecessors n);
          (out, freed) = transfer (statement n) (in_map, freed_vars n)
      in a\<lparr>cfg_nodes :=
             ns[node := n\<lparr>allocations_in := in_map, allocations_out := out, freed_vars := freed\<rparr>]\<rparr>)"

fun analyze_memory_dependencies :: "Expr \<Rightarrow> string list \<Rightarrow> string list"
  and analyze_memory_dependencies_list :: "Expr list \<Rightarrow> string list \<Rightarrow> string list" where
  "analyze_memory_dependencies (Variable name) deps = List.insert (lexeme name) deps"
| "analyze_memory_dependencies (Binary l op r) deps =
     analyze_memory_dependencies r (analyze_memory_dependencies l deps)"
| "analyze_memory_dependencies (Unary op r) deps = analyze_memory_dependencies r deps"
| "analyze_memory_dependencies (Call callee paren arguments) deps =
     analyze_memory_dependencies_list arguments deps"
| "analyze_memory_dependencies (Grouping e) deps = analyze_memory_dependencies e deps"
| "analyze_memory_dependencies (IndexGet array index bracket) deps =
     analyze_memory_dependencies index (analyze_memory_dependencies array deps)"
| "analyze_memory_dependencies (IndexSet array index val bracket) deps =
     analyze_memory_dependencies val
       (analyze_memory_dependencies index (analyze_memory_dependencies array deps))"
| "analyze_memory_dependencies (Literal v t) deps = deps"
| "analyze_memory_dependencies (Assign name val) deps = deps"
| "analyze_memory_dependencies (Logical l op r) deps = deps"
| "analyze_memory_dependencies (ArrayLiteral elements bracket) deps = deps"
| "analyze_memory_dependencies (DictLiteral pairs brace) deps = deps"
| "analyze_memory_dependencies_list [] deps = deps"
| "analyze_memory_dependencies_list (e # es) deps =
     analyze_memory_dependencies_list es (analyze_memory_dependencies e deps)"

text \<open>The expression of the node's statement that \<open>detect_memory_access_patterns\<close> reads.\<close>

definition accessed_expression :: "Stmt \<Rightarrow> Expr option" where
  "accessed_expression stmt =
     (case stmt of
        ExprStmt e \<Rightarrow> Some e
      | PrintStmt e keyword \<Rightarrow> Some e
      | IfStmt condition then_branch else_branch keyword \<Rightarrow> Some condition
      | WhileStmt condition body keyword \<Rightarrow> Some condition
      | ReturnStmt keyword val \<Rightarrow> val
      | _ \<Rightarrow> None)"

fun use_after_free_warnings :: "string list \<Rightarrow> allocation_map \<Rightarrow> int \<Rightarrow> string list" where
  "use_after_free_warnings [] in_map ident = []"
| "use_after_free_warnings (var # vars) in_map ident =
     (case map_of in_map var of
        Some alloc \<Rightarrow>
          (if state alloc = FREED then
             [''Potential use-after-free of '' @ quote @ var @ quote @ '' in CFG node '' @
              int_to_string ident]
           else [])
      | None \<Rightarrow> []) @ use_after_free_warnings vars in_map ident"

definition detect_memory_access_patterns :: "nat \<Rightarrow> MemorySafetyAnalyzer \<Rightarrow> MemorySafetyAnalyzer" where
  "detect_memory_access_patterns node a =
     (let n = cfg_nodes a ! node in
      if statement n = NullStmt then a
      else (let accessed_vars =
                  (case accessed_expression (statement n) of
                     Some e \<Rightarrow> analyze_memory_dependencies e []
                   | None \<Rightarrow> [])
            in a\<lparr>warnings := warnings a @
                     use_after_free_warnings accessed_vars (allocations_in n) (node_id n)\<rparr>))"

text \<open>
  \<open>operator!=\<close> of two unordered maps: they are equal when they have the same number of
  entries and every entry of the first has an entry of the same key in the second that
  \<open>AllocationInfo::operator==\<close> accepts.
\<close>

definition allocation_maps_equal :: "allocation_map \<Rightarrow> allocation_map \<Rightarrow> bool" where
  "allocation_maps_equal m1 m2 =
     (length m1 = length m2 \<and>
      list_all (\<lambda>(var, alloc). case map_of m2 var of
                                   Some alloc' \<Rightarrow> AllocationInfo_eq alloc alloc'
                                 | None \<Rightarrow> False) m1)"

text \<open>The loop over the successors of a node whose output changed.\<close>

fun push_successors :: "ControlFlowNode list \<Rightarrow> nat list \<Rightarrow> nat list \<times> int list \<Rightarrow> nat list \<times> int list" where
  "push_successors ns [] wl = wl"
| "push_successors ns (succ # succs) (worklist, in_worklist) =
     push_successors ns succs
       (if node_id (ns ! succ) \<notin> set in_worklist
        then (worklist @ [succ], node_id (ns ! succ) # in_worklist)
        else (worklist, in_worklist))"

text \<open>
  The \<open>while (!worklist.empty())\<close> loop of \<open>perform_dataflow_analysis\<close>. Nothing bounds
  the number of its iterations, so the model is a partial function: \<open>None\<close> means that the
  loop does not end.
\<close>

partial_function (option) dataflow_loop ::
  "nat list \<Rightarrow> int list \<Rightarrow> MemorySafetyAnalyzer \<Rightarrow> MemorySafetyAnalyzer option" where
  "dataflow_loop worklist in_worklist a =
     (case worklist of
        [] \<Rightarrow> Some a
      | node # rest \<Rightarrow>
          (let in_worklist1 = removeAll (node_id (cfg_nodes a ! node)) in_worklist;
               old_out = allocations_out (cfg_nodes a ! node);
               a1 = detect_memory_access_patterns node (propagate_allocations node a);
               n1 = cfg_nodes a1 ! node
           in if \<not> allocation_maps_equal (allocations_out n1) old_out then
                (let (worklist2, in_worklist2) =
                       push_successors (cfg_nodes a1) (successors n1) (rest, in_worklist1)
                 in dataflow_loop worklist2 in_worklist2 a1)
              else dataflow_loop rest in_worklist1 a1))"

declare dataflow_loop.simps [code]

definition perform_dataflow_analysis :: "nat option \<Rightarrow> MemorySafetyAnalyzer \<Rightarrow> outcome" where
  "perform_dataflow_analysis entry a =
     (case entry of
        None \<Rightarrow> Returned a
      | Some e \<Rightarrow>
          (case dataflow_loop [e] [node_id (cfg_nodes a ! e)] a of
             Some a' \<Rightarrow> Returned a'
           | None \<Rightarrow> Diverged))"

subsection \<open>Phase D: enumeration of paths\<close>

definition MAX_PATHS :: nat where
  "MAX_PATHS = 10000"

definition MAX_PATH_DEPTH :: nat where
  "MAX_PATH_DEPTH = 1000"

text \<open>
  \<open>enumerate_paths_recursive\<close> and its loop over the successors. \<open>current_path\<close> and
  \<open>visited\<close> are restored before the function returns, so only \<open>all_paths\<close> is returned.
\<close>

function enumerate_paths_recursive ::
      "ControlFlowNode list \<Rightarrow> nat \<Rightarrow> nat \<Rightarrow> nat list \<Rightarrow> int list \<Rightarrow> ControlFlowPath list \<Rightarrow>
       ControlFlowPath list"
  and enumerate_successors ::
      "ControlFlowNode list \<Rightarrow> nat list \<Rightarrow> nat \<Rightarrow> nat list \<Rightarrow> int list \<Rightarrow> ControlFlowPath list \<Rightarrow>
       ControlFlowPath list" where
  "enumerate_paths_recursive ns cur exit current_path visited all_paths =
     (if length all_paths \<ge> MAX_PATHS then all_paths
      else if node_id (ns ! cur) \<in> set visited then all_paths
      else if length current_path \<ge> MAX_PATH_DEPTH then all_paths
      else (let current_path' = current_path @ [cur];
                visited' = node_id (ns ! cur) # visited
            in if cur = exit then
                 all_paths @
                   [\<lparr>nodes = current_path', final_allocations = allocations_out (ns ! cur),
                     path_freed_vars = freed_vars (ns ! cur), is_feasible = True\<rparr>]
               else enumerate_successors ns (successors (ns ! cur)) exit current_path' visited'
                      all_paths))"
| "enumerate_successors ns [] exit current_path visited all_paths = all_paths"
| "enumerate_successors ns (succ # succs) exit current_path visited all_paths =
     enumerate_successors ns succs exit current_path visited
       (enumerate_paths_recursive ns succ exit current_path visited all_paths)"
  by pat_completeness auto
termination
  by (relation "measures
        [\<lambda>x. case x of
            Inl (ns, cur, exit, current_path, visited, all_paths) \<Rightarrow> MAX_PATH_DEPTH + 1 - length current_path
          | Inr (ns, succs, exit, current_path, visited, all_paths) \<Rightarrow> MAX_PATH_DEPTH + 1 - length current_path,
         \<lambda>x. case x of
            Inl (ns, cur, exit, current_path, visited, all_paths) \<Rightarrow> 0
          | Inr (ns, succs, exit, current_path, visited, all_paths) \<Rightarrow> length succs + 1]")
     (auto simp: MAX_PATH_DEPTH_def)

definition enumerate_all_paths :: "ControlFlowNode list \<Rightarrow> nat \<Rightarrow> nat \<Rightarrow> ControlFlowPath list" where
  "enumerate_all_paths ns entry exit = enumerate_paths_recursive ns entry exit [] [] []"

fun leak_warnings :: "allocation_map \<Rightarrow> string list" where
  "leak_warnings [] = []"
| "leak_warnings ((var, alloc) # rest) =
     (if state alloc = ALLOCATED then
        [''Path-sensitive analysis: Potential leak of '' @ quote @ var @ quote @
         '' along execution path'']
      else []) @ leak_warnings rest"

definition analyze_path_memory_safety :: "ControlFlowPath \<Rightarrow> MemorySafetyAnalyzer \<Rightarrow> MemorySafetyAnalyzer" where
  "analyze_path_memory_safety path a =
     (if \<not> is_feasible path then a
      else a\<lparr>warnings := warnings a @ leak_warnings (final_allocations path)\<rparr>)"

definition perform_interprocedural_analysis :: "Token \<Rightarrow> Stmt list \<Rightarrow> MemorySafetyAnalyzer \<Rightarrow> outcome" where
  "perform_interprocedural_analysis name body a =
     (let (func_entry, a1) = create_cfg_node FUNCTION_CALL a;
          (func_exit, a2) = create_cfg_node FUNCTION_RETURN a1;
          a3 = a2\<lparr>function_entry_nodes := AList.update (lexeme name) func_entry (function_entry_nodes a2),
                  function_exit_nodes := AList.update (lexeme name) func_exit (function_exit_nodes a2)\<rparr>;
          (body_node, a4) = build_cfg_block body func_exit a3;
          a5 = connect_cfg_nodes func_entry (node_or body_node func_exit) a4
      in and_then (perform_dataflow_analysis (Some func_entry) a5)
           (\<lambda>a6. Returned
                    (foldl (\<lambda>b path. analyze_path_memory_safety path b) a6
                       (enumerate_all_paths (cfg_nodes a6) func_entry func_exit))))"

subsection \<open>Phase A: statements\<close>

text \<open>
  The part of \<open>analyze_var_stmt\<close> that follows \<open>analyze_expr(*stmt->initializer)\<close>: a
  declaration initialized by a call of an allocator or of \<open>addr_of\<close> is recorded.
\<close>

definition record_declaration :: "Token \<Rightarrow> Expr \<Rightarrow> MemorySafetyAnalyzer \<Rightarrow> outcome" where
  "record_declaration name initializer a =
     (let var = lexeme name in
      case as_call initializer of
        None \<Rightarrow> Returned a
      | Some (callee, paren, arguments) \<Rightarrow>
          (case callee_name callee of
             None \<Rightarrow> Returned a
           | Some func_name \<Rightarrow>
               (if is_allocator func_name then
                  (if (case map_of (allocations a) var of
                         Some old_alloc \<Rightarrow> state old_alloc = ALLOCATED
                       | None \<Rightarrow> False)
                   then
                     Thrown (MemorySafetyError
                               (''Memory leak: '' @ quote @ var @ quote @
                                '' is being reassigned without freeing previous allocation'')
                               name
                               (Some (''Free the previous allocation first: free('' @ var @ '');''))
                               ''MEMORY LEAK'') a
                   else
                     Returned
                       (a\<lparr>allocations :=
                            AList.update var
                              ((new_AllocationInfo var name ALLOCATED (func_name = ''calloc''))
                                 \<lparr>size_expr :=
                                    Some (if arguments = [] then None else Some (arguments ! 0))\<rparr>)
                              (allocations a)\<rparr>))
                else if func_name = ''addr_of'' \<and> arguments \<noteq> [] then
                  (case as_variable (arguments ! 0) of
                     None \<Rightarrow> Returned a
                   | Some arg_name \<Rightarrow>
                       (let target_var = lexeme arg_name;
                            ptr_info = (new_PointerInfo var name ''number'' VALID 1)
                                         \<lparr>points_to := Some target_var\<rparr>;
                            a1 = a\<lparr>pointers := AList.update var ptr_info (pointers a)\<rparr>
                        in case map_of (allocations a1) target_var of
                             Some alloc \<Rightarrow>
                               Returned
                                 (a1\<lparr>allocations :=
                                       AList.update target_var
                                         (alloc\<lparr>ref_count := ref_count alloc + 1,
                                                aliases := List.insert var (aliases alloc)\<rparr>)
                                         (allocations a1)\<rparr>)
                           | None \<Rightarrow> Returned a1))
                else Returned a)))"

definition analyze_var_stmt :: "Token \<Rightarrow> Expr option \<Rightarrow> MemorySafetyAnalyzer \<Rightarrow> outcome" where
  "analyze_var_stmt name initializer a =
     (let a0 = a\<lparr>current_scope_vars := insert_back (lexeme name) (current_scope_vars a)\<rparr> in
      case initializer of
        None \<Rightarrow> Returned a0
      | Some e \<Rightarrow> and_then (analyze_expr e a0) (record_declaration name e))"

text \<open>
  The loop at the end of \<open>analyze_if_stmt\<close>: a name in \<open>then_freed\<close> and not in
  \<open>else_freed\<close> whose allocation is \<open>FREED\<close> is set back to \<open>ALLOCATED\<close>.
\<close>

fun revert_freed :: "string list \<Rightarrow> string list \<Rightarrow> allocation_map \<Rightarrow> allocation_map" where
  "revert_freed [] else_freed allocs = allocs"
| "revert_freed (var # then_freed) else_freed allocs =
     revert_freed then_freed else_freed
       (if var \<notin> set else_freed then
          (case map_of allocs var of
             Some alloc \<Rightarrow>
               (if state alloc = FREED then AList.update var (alloc\<lparr>state := ALLOCATED\<rparr>) allocs
                else allocs)
           | None \<Rightarrow> allocs)
        else allocs)"

fun check_function_memory_leaks_loop :: "Token \<Rightarrow> allocation_map \<Rightarrow> MemorySafetyAnalyzer \<Rightarrow> outcome" where
  "check_function_memory_leaks_loop func_name [] a = Returned a"
| "check_function_memory_leaks_loop func_name ((var, alloc) # rest) a =
     (if state alloc = ALLOCATED \<and> strict_mode a then
        Thrown (MemorySafetyError
                  (''Memory leak in function '' @ quote @ lexeme func_name @ quote @
                   '': Variable '' @ quote @ var @ quote @ '' is not freed before return'')
                  (allocation_token alloc)
                  (Some (''Add '' @ quote @ ''free('' @ var @ '');'' @ quote @
                         '' before all return statements''))
                  ''MEMORY LEAK'') a
      else check_function_memory_leaks_loop func_name rest a)"

definition check_function_memory_leaks :: "Token \<Rightarrow> MemorySafetyAnalyzer \<Rightarrow> outcome" where
  "check_function_memory_leaks func_name a =
     check_function_memory_leaks_loop func_name (allocations a) a"

fun check_memory_leaks_loop :: "allocation_map \<Rightarrow> MemorySafetyAnalyzer \<Rightarrow> outcome" where
  "check_memory_leaks_loop [] a = Returned a"
| "check_memory_leaks_loop ((var, alloc) # rest) a =
     (if state alloc = ALLOCATED then
        (if strict_mode a then
           Thrown (MemorySafetyError
                     (''Memory leak: Variable '' @ quote @ var @ quote @ '' is never freed'')
                     (allocation_token alloc)
                     (Some (''Add '' @ quote @ ''free('' @ var @ '');'' @ quote @
                            '' before program exit''))
                     ''MEMORY LEAK'') a
         else check_memory_leaks_loop rest
                (a\<lparr>warnings := warnings a @
                      [''Warning: Potential memory leak - '' @ quote @ var @ quote @
                       '' may not be freed'']\<rparr>))
      else check_memory_leaks_loop rest a)"

definition check_memory_leaks :: "MemorySafetyAnalyzer \<Rightarrow> outcome" where
  "check_memory_leaks a = check_memory_leaks_loop (allocations a) a"

text \<open>
  \<open>analyze_stmt\<close> tests the dynamic type of the statement and calls the function for it;
  each equation below is the body of that function (\<open>analyze_block\<close>, \<open>analyze_if_stmt\<close>,
  \<open>analyze_while_stmt\<close>, \<open>analyze_function_stmt\<close>, \<open>analyze_return_stmt\<close>,
  \<open>analyze_switch_stmt\<close>, \<open>analyze_unsafe_block\<close>). \<open>analyze_stmts\<close> is the loop over a
  vector of statements, \<open>analyze_cases\<close> the loop of \<open>analyze_switch_stmt\<close> over the case
  clauses.
\<close>

function (sequential) analyze_stmt :: "Stmt \<Rightarrow> MemorySafetyAnalyzer \<Rightarrow> outcome"
  and analyze_stmts :: "Stmt list \<Rightarrow> MemorySafetyAnalyzer \<Rightarrow> outcome"
  and analyze_cases :: "CaseClause list \<Rightarrow> MemorySafetyAnalyzer \<Rightarrow> outcome" where
  "analyze_stmt (VarStmt name initializer) a = analyze_var_stmt name initializer a"
| "analyze_stmt (ExprStmt e) a = analyze_expr e a"
| "analyze_stmt (Block statements brace) a =
     and_then (analyze_stmts statements (enter_scope a)) exit_scope"
| "analyze_stmt (IfStmt condition then_branch else_branch keyword) a =
     and_then (analyze_expr condition a)
       (\<lambda>a1. let then_allocations = allocations a1 in
          and_then (analyze_stmt then_branch a1)
            (\<lambda>a2. let then_freed = back_of (freed_in_scope a2) in
               case else_branch of
                 None \<Rightarrow> Returned a2
               | Some e \<Rightarrow>
                   and_then (analyze_stmt e (a2\<lparr>allocations := then_allocations\<rparr>))
                     (\<lambda>a3. let else_freed = back_of (freed_in_scope a3) in
                        Returned (a3\<lparr>allocations :=
                                      revert_freed then_freed else_freed (allocations a3)\<rparr>))))"
| "analyze_stmt (WhileStmt condition body keyword) a =
     and_then (analyze_expr condition a)
       (\<lambda>a1. and_then (analyze_stmt body (enter_scope a1)) exit_scope)"
| "analyze_stmt (FunctionStmt name params body) a =
     (let old_allocations = allocations a; old_pointers = pointers a in
      and_then (analyze_stmts body (enter_scope (a\<lparr>allocations := [], pointers := []\<rparr>)))
        (\<lambda>a1. and_then (check_function_memory_leaks name a1)
           (\<lambda>a2. and_then (perform_interprocedural_analysis name body a2)
              (\<lambda>a3. and_then (exit_scope a3)
                 (\<lambda>a4. Returned (a4\<lparr>allocations := old_allocations,
                                      pointers := old_pointers\<rparr>))))))"
| "analyze_stmt (ReturnStmt keyword val) a =
     (case val of Some e \<Rightarrow> analyze_expr e a | None \<Rightarrow> Returned a)"
| "analyze_stmt (PrintStmt e keyword) a = analyze_expr e a"
| "analyze_stmt (SwitchStmt keyword condition cases default_case) a =
     and_then (analyze_expr condition a)
       (\<lambda>a1. and_then (analyze_cases cases a1)
          (\<lambda>a2. case default_case of
                   Some ds \<Rightarrow> analyze_stmts ds a2
                 | None \<Rightarrow> Returned a2))"
| "analyze_stmt (UnsafeBlock keyword statements) a =
     (let old_strict = strict_mode a in
      and_then (analyze_stmts statements (a\<lparr>strict_mode := False\<rparr>))
        (\<lambda>a1. Returned (a1\<lparr>strict_mode := old_strict\<rparr>)))"
| "analyze_stmt stmt a = Returned a"
| "analyze_stmts [] a = Returned a"
| "analyze_stmts (s # ss) a = and_then (analyze_stmt s a) (analyze_stmts ss)"
| "analyze_cases [] a = Returned a"
| "analyze_cases (CaseClause v stmts # cs) a =
     and_then (analyze_expr v a)
       (\<lambda>a1. let case_alloc = allocations a1 in
          and_then (analyze_stmts stmts a1)
            (\<lambda>a2. analyze_cases cs (a2\<lparr>allocations := case_alloc\<rparr>)))"
  by pat_completeness auto
termination
  by (relation "measure (\<lambda>x. case x of
          Inl (s, a) \<Rightarrow> size s
        | Inr (Inl (ss, a)) \<Rightarrow> size_list size ss
        | Inr (Inr (cs, a)) \<Rightarrow> size_list size cs)") auto

text \<open>
  \<open>analyze\<close>: the result is the value returned and the analyzer afterwards, or \<open>None\<close>
  when the call does not return.
\<close>

definition analyze :: "Stmt list \<Rightarrow> MemorySafetyAnalyzer \<Rightarrow> (bool \<times> MemorySafetyAnalyzer) option" where
  "analyze statements a =
     (case and_then (analyze_stmts statements (a\<lparr>errors := [], warnings := []\<rparr>))
             (\<lambda>a1. and_then (check_memory_leaks a1)
                (\<lambda>a2. let (cfg_entry, a3) = build_cfg statements a2 in
                   case cfg_entry of
                     Some e \<Rightarrow> perform_dataflow_analysis (Some e) a3
                   | None \<Rightarrow> Returned a3)) of
        Returned a' \<Rightarrow> Some (if errors a' \<noteq> [] then False else True, a')
      | Thrown e a' \<Rightarrow> Some (False, a'\<lparr>errors := errors a' @ [e]\<rparr>)
      | Diverged \<Rightarrow> None)"

text \<open>The states of the allocation records and the kinds of the errors of an analyzer.\<close>

definition allocation_states :: "MemorySafetyAnalyzer \<Rightarrow> (string \<times> MemoryState) list" where
  "allocation_states a = map (\<lambda>(var, alloc). (var, state alloc)) (allocations a)"

definition error_kinds :: "MemorySafetyAnalyzer \<Rightarrow> string list" where
  "error_kinds a = map error_type (errors a)"

section \<open>Properties of the analyzer\<close>

subsection \<open>The control-flow graph and the dataflow loop leave the rest of the analyzer alone\<close>

text \<open>
  The members of the analyzer that the construction of the graph and the dataflow loop
  never write.
\<close>

definition core ::
  "MemorySafetyAnalyzer \<Rightarrow>
   allocation_map \<times> (string \<times> PointerInfo) list \<times> string list list \<times> string list list \<times>
   MemorySafetyError list \<times> bool" where
  "core a = (allocations a, pointers a, current_scope_vars a, freed_in_scope a, errors a,
             strict_mode a)"

text \<open>The members of a node that decide what the dataflow loop does at that node.\<close>

definition stable :: "ControlFlowNode \<Rightarrow> ControlFlowNode \<Rightarrow> bool" where
  "stable n n' \<longleftrightarrow>
     predecessors n' = predecessors n \<and> statement n' = statement n \<and>
     allocations_out n' = allocations_out n"

definition cfg_grows :: "MemorySafetyAnalyzer \<Rightarrow> nat \<Rightarrow> MemorySafetyAnalyzer \<Rightarrow> bool" where
  "cfg_grows a ex a' \<longleftrightarrow>
     core a' = core a \<and> length (cfg_nodes a) \<le> length (cfg_nodes a') \<and>
     (\<forall>i<length (cfg_nodes a). i \<noteq> ex \<longrightarrow> stable (cfg_nodes a ! i) (cfg_nodes a' ! i))"

lemma cfg_grows_refl: "cfg_grows a ex a"
  by (simp add: cfg_grows_def stable_def)

lemma cfg_grows_trans:
  assumes "cfg_grows a ex a1" and "cfg_grows a1 ex' a2"
    and "ex' = ex \<or> length (cfg_nodes a) \<le> ex'"
  shows "cfg_grows a ex a2"
  using assms unfolding cfg_grows_def stable_def
  by (metis (no_types, lifting) leD le_trans less_le_trans)

lemma create_cfg_node_grows:
  assumes "create_cfg_node t a = (k, a1)"
  shows "k = length (cfg_nodes a) \<and> length (cfg_nodes a1) = Suc k \<and> cfg_grows a ex a1"
  using assms by (auto simp: create_cfg_node_def cfg_grows_def stable_def core_def nth_append)

lemma set_node_source_grows: "cfg_grows a n (set_node_source n s e a)"
  by (auto simp: set_node_source_def cfg_grows_def stable_def core_def)

lemma set_node_source_length:
  "length (cfg_nodes (set_node_source n s e a)) = length (cfg_nodes a)"
  by (simp add: set_node_source_def)

lemma stable_nth_update_successors:
  "stable (ns ! i) (ns[k := (ns ! k)\<lparr>successors := ss\<rparr>] ! i)"
  by (cases "k < length ns"; cases "i = k") (simp_all add: stable_def list_update_beyond)

lemma connect_cfg_nodes_grows: "cfg_grows a to (connect_cfg_nodes from to a)"
  using stable_nth_update_successors [of "cfg_nodes a" _ "from"]
  by (auto simp: connect_cfg_nodes_def cfg_grows_def core_def Let_def)

lemma connect_cfg_nodes_length:
  "length (cfg_nodes (connect_cfg_nodes from to a)) = length (cfg_nodes a)"
  by (simp add: connect_cfg_nodes_def Let_def)

lemma cfg_grows_fresh:
  assumes "cfg_grows a ex a1" and "cfg_grows a1 k a2" and "length (cfg_nodes a) \<le> k"
  shows "cfg_grows a ex a2"
  using cfg_grows_trans [OF assms(1,2)] assms(3) by simp

lemma cfg_grows_length: "cfg_grows a ex a1 \<Longrightarrow> length (cfg_nodes a) \<le> length (cfg_nodes a1)"
  by (simp add: cfg_grows_def)

lemma new_node_grows:
  assumes "create_cfg_node t a = (n, a1)"
  shows "cfg_grows a ex (set_node_source n s e a1)"
    and "n = length (cfg_nodes a)"
    and "length (cfg_nodes (set_node_source n s e a1)) = Suc n"
  using create_cfg_node_grows [OF assms, of ex] set_node_source_grows [of a1 n s e]
  by (auto intro: cfg_grows_fresh simp: set_node_source_length)

lemma build_cfg_grows:
  "build_cfg_stmt s ex a = (r, a') \<Longrightarrow>
     cfg_grows a ex a' \<and> (\<forall>k. r = Some k \<longrightarrow> length (cfg_nodes a) \<le> k)"
  "build_cfg_block ss ex a = (r, a') \<Longrightarrow>
     cfg_grows a ex a' \<and> (\<forall>k. r = Some k \<longrightarrow> length (cfg_nodes a) \<le> k)"
  "build_cfg_block_loop ss ex f p a = ((f', p'), a') \<Longrightarrow>
     cfg_grows a ex a' \<and>
     (case f of None \<Rightarrow> \<forall>k. f' = Some k \<longrightarrow> length (cfg_nodes a) \<le> k | Some x \<Rightarrow> f' = Some x)"
proof (induction s ex a and ss ex a and ss ex f p a arbitrary: r a' and r a' and f' p' a'
       rule: build_cfg_stmt_build_cfg_block_build_cfg_block_loop.induct)

  case (1 condition then_branch else_branch keyword exit_node a)
  let ?s = "IfStmt condition then_branch else_branch keyword"
  obtain branch_node a1 where c1: "create_cfg_node BRANCH a = (branch_node, a1)"
    by (cases "create_cfg_node BRANCH a")
  define a2 where "a2 = set_node_source branch_node ?s (Some condition) a1"
  obtain merge_node a3 where c3: "create_cfg_node MERGE a2 = (merge_node, a3)"
    by (cases "create_cfg_node MERGE a2")
  obtain then_body a4 where t4: "build_cfg_stmt then_branch merge_node a3 = (then_body, a4)"
    by (cases "build_cfg_stmt then_branch merge_node a3")
  define a5 where "a5 = connect_cfg_nodes branch_node (node_or then_body merge_node) a4"
  note n2 = new_node_grows(1) [OF c1, of exit_node ?s "Some condition", folded a2_def]
    new_node_grows(2) [OF c1] new_node_grows(3) [OF c1, of ?s "Some condition", folded a2_def]
  note n3 = create_cfg_node_grows [OF c3, of exit_node]
  from "1.IH"(1) [OF refl c1 [symmetric] a2_def refl c3 [symmetric] t4]
  have g4: "cfg_grows a3 merge_node a4"
    and k4: "\<And>k. then_body = Some k \<Longrightarrow> length (cfg_nodes a3) \<le> k" by auto
  have l3: "length (cfg_nodes a) \<le> merge_node" "length (cfg_nodes a) \<le> length (cfg_nodes a3)"
    using n2 n3 by auto
  have g03: "cfg_grows a exit_node a3"
    using cfg_grows_trans [OF n2(1)] n3 by blast
  have g04: "cfg_grows a exit_node a4"
    using cfg_grows_fresh [OF g03 g4] l3 by simp
  have t: "length (cfg_nodes a) \<le> node_or then_body merge_node"
    using k4 l3 by (auto simp: node_or_def split: option.splits)
  have g05: "cfg_grows a exit_node a5"
    unfolding a5_def using cfg_grows_fresh [OF g04 connect_cfg_nodes_grows t] .
  show ?case
  proof (cases else_branch)
    case None
    with "1.prems" c1 c3 t4 have "r = Some branch_node"
      and "a' = connect_cfg_nodes branch_node merge_node a5"
      by (simp_all add: a2_def a5_def)
    with cfg_grows_fresh [OF g05 connect_cfg_nodes_grows l3(1)] n2 show ?thesis by simp
  next
    case (Some e)
    obtain else_body a6 where e6: "build_cfg_stmt e merge_node a5 = (else_body, a6)"
      by (cases "build_cfg_stmt e merge_node a5")
    from "1.IH"(2) [OF refl c1 [symmetric] a2_def refl c3 [symmetric] refl t4 [symmetric] a5_def Some e6]
    have g6: "cfg_grows a5 merge_node a6"
      and k6: "\<And>k. else_body = Some k \<Longrightarrow> length (cfg_nodes a5) \<le> k" by auto
    have g06: "cfg_grows a exit_node a6"
      using cfg_grows_fresh [OF g05 g6 l3(1)] .
    have e: "length (cfg_nodes a) \<le> node_or else_body merge_node"
      using k6 l3 cfg_grows_length [OF g05] by (auto simp: node_or_def split: option.splits)
    from "1.prems" c1 c3 t4 Some e6 have "r = Some branch_node"
      and "a' = connect_cfg_nodes branch_node (node_or else_body merge_node) a6"
      by (simp_all add: a2_def a5_def)
    with cfg_grows_fresh [OF g06 connect_cfg_nodes_grows e] n2 show ?thesis by simp
  qed
next
  case (2 condition body keyword exit_node a)
  let ?s = "WhileStmt condition body keyword"
  obtain loop_header a1 where c1: "create_cfg_node LOOP_HEADER a = (loop_header, a1)"
    by (cases "create_cfg_node LOOP_HEADER a")
  define a2 where "a2 = set_node_source loop_header ?s (Some condition) a1"
  obtain loop_exit a3 where c3: "create_cfg_node LOOP_EXIT a2 = (loop_exit, a3)"
    by (cases "create_cfg_node LOOP_EXIT a2")
  obtain loop_body a4 where t4: "build_cfg_stmt body loop_header a3 = (loop_body, a4)"
    by (cases "build_cfg_stmt body loop_header a3")
  define a5 where "a5 = connect_cfg_nodes loop_header (node_or loop_body loop_header) a4"
  note n2 = new_node_grows(1) [OF c1, of exit_node ?s "Some condition", folded a2_def]
    new_node_grows(2) [OF c1] new_node_grows(3) [OF c1, of ?s "Some condition", folded a2_def]
  note n3 = create_cfg_node_grows [OF c3, of exit_node]
  from "2.IH" [OF refl c1 [symmetric] a2_def refl c3 [symmetric] t4]
  have g4: "cfg_grows a3 loop_header a4"
    and k4: "\<And>k. loop_body = Some k \<Longrightarrow> length (cfg_nodes a3) \<le> k" by auto
  have l3: "length (cfg_nodes a) \<le> loop_exit" "length (cfg_nodes a) \<le> length (cfg_nodes a3)"
      "length (cfg_nodes a) \<le> loop_header"
    using n2 n3 by auto
  have g03: "cfg_grows a exit_node a3"
    using cfg_grows_trans [OF n2(1)] n3 by blast
  have g04: "cfg_grows a exit_node a4"
    using cfg_grows_fresh [OF g03 g4] l3 by simp
  have t: "length (cfg_nodes a) \<le> node_or loop_body loop_header"
    using k4 l3 by (auto simp: node_or_def split: option.splits)
  have g05: "cfg_grows a exit_node a5"
    unfolding a5_def using cfg_grows_fresh [OF g04 connect_cfg_nodes_grows t] .
  from "2.prems" c1 c3 t4 have "r = Some loop_header"
    and "a' = connect_cfg_nodes loop_header loop_exit a5"
    by (simp_all add: a2_def a5_def)
  with cfg_grows_fresh [OF g05 connect_cfg_nodes_grows l3(1)] n2 show ?case by simp
next
  case (6 s ss exit_node a)
  obtain first_node prev_node a1
    where l: "build_cfg_block_loop (s # ss) exit_node None None a = ((first_node, prev_node), a1)"
    by (cases "build_cfg_block_loop (s # ss) exit_node None None a") auto
  from "6.IH" [OF l] have g1: "cfg_grows a exit_node a1"
    and k1: "\<And>k. first_node = Some k \<Longrightarrow> length (cfg_nodes a) \<le> k" by auto
  from "6.prems" l have r: "r = first_node"
    and a': "a' = (case prev_node of Some p \<Rightarrow> connect_cfg_nodes p exit_node a1 | None \<Rightarrow> a1)"
    by simp_all
  have "cfg_grows a exit_node a'"
    using g1 cfg_grows_trans [OF g1 connect_cfg_nodes_grows [of a1 exit_node]]
    by (auto simp: a' split: option.splits)
  with k1 r show ?case by simp
next
  case (8 stmt rest exit_node first_node prev_node a)
  obtain stmt_node a1 where s1: "build_cfg_stmt stmt exit_node a = (stmt_node, a1)"
    by (cases "build_cfg_stmt stmt exit_node a")
  define first_node' where
    "first_node' = (case first_node of None \<Rightarrow> stmt_node | Some f \<Rightarrow> Some f)"
  define a2 where
    "a2 = (case prev_node of
             None \<Rightarrow> a1
           | Some p \<Rightarrow> (case stmt_node of None \<Rightarrow> a1 | Some n \<Rightarrow> connect_cfg_nodes p n a1))"
  from "8.prems" s1 have rest: "build_cfg_block_loop rest exit_node first_node' stmt_node a2 = ((f', p'), a')"
    by (simp add: first_node'_def a2_def)
  from "8.IH"(1) [OF s1] have g1: "cfg_grows a exit_node a1"
    and k1: "\<And>k. stmt_node = Some k \<Longrightarrow> length (cfg_nodes a) \<le> k" by auto
  have g12: "cfg_grows a exit_node a2"
  proof (cases "\<exists>p n. prev_node = Some p \<and> stmt_node = Some n")
    case True
    then obtain p n where pn: "prev_node = Some p" "stmt_node = Some n" by auto
    then have "a2 = connect_cfg_nodes p n a1" by (simp add: a2_def)
    with cfg_grows_trans [OF g1 connect_cfg_nodes_grows [of a1 n p]] k1 [OF pn(2)]
    show ?thesis by simp
  next
    case False
    then have "a2 = a1" by (auto simp: a2_def split: option.splits)
    with g1 show ?thesis by simp
  qed
  from "8.IH"(2) [OF refl s1 [symmetric] first_node'_def a2_def rest]
  have g2: "cfg_grows a2 exit_node a'"
    and k2: "case first_node' of None \<Rightarrow> \<forall>k. f' = Some k \<longrightarrow> length (cfg_nodes a2) \<le> k
             | Some x \<Rightarrow> f' = Some x" by auto
  show ?case
    using cfg_grows_trans [OF g12 g2] g12 k2 k1 by (auto simp: first_node'_def cfg_grows_def split: option.splits)
qed (auto simp: cfg_grows_refl split: prod.splits option.splits dest: new_node_grows)

text \<open>
  A node without predecessors, without statement and with an empty \<open>allocations_out\<close>:
  the dataflow loop started at such a node pops it, finds its output unchanged, pushes
  nothing and ends.
\<close>

definition quiet :: "ControlFlowNode \<Rightarrow> bool" where
  "quiet n \<longleftrightarrow> predecessors n = [] \<and> statement n = NullStmt \<and> allocations_out n = []"

lemma stable_quiet: "stable n n' \<Longrightarrow> quiet n \<Longrightarrow> quiet n'"
  by (simp add: stable_def quiet_def)

lemma quiet_propagate:
  assumes "quiet (cfg_nodes a ! e)"
  shows "core (propagate_allocations e a) = core a"
    and "warnings (propagate_allocations e a) = warnings a"
    and "quiet (cfg_nodes (propagate_allocations e a) ! e)"
  using assms
  by (cases "e < length (cfg_nodes a)";
      simp add: propagate_allocations_def incoming_allocations_def transfer_def quiet_def
                core_def Let_def list_update_beyond)+

lemma quiet_detect:
  assumes "quiet (cfg_nodes a ! e)"
  shows "detect_memory_access_patterns e a = a"
  using assms by (simp add: detect_memory_access_patterns_def quiet_def)

lemma quiet_dataflow_loop:
  assumes "quiet (cfg_nodes a ! e)"
  shows "\<exists>a'. dataflow_loop [e] in_worklist a = Some a' \<and> core a' = core a \<and> warnings a' = warnings a"
proof -
  let ?a1 = "propagate_allocations e a"
  have d: "detect_memory_access_patterns e ?a1 = ?a1"
    using quiet_detect [OF quiet_propagate(3) [OF assms]] .
  have "allocation_maps_equal (allocations_out (cfg_nodes ?a1 ! e)) (allocations_out (cfg_nodes a ! e))"
    using quiet_propagate(3) [OF assms] assms by (simp add: quiet_def allocation_maps_equal_def)
  then have "dataflow_loop [e] in_worklist a = Some ?a1"
    by (subst dataflow_loop.simps, simp add: d Let_def, subst dataflow_loop.simps, simp)
  with quiet_propagate [OF assms] show ?thesis by simp
qed

lemma quiet_perform_dataflow_analysis:
  assumes "quiet (cfg_nodes a ! e)"
  shows "\<exists>a'. perform_dataflow_analysis (Some e) a = Returned a' \<and> core a' = core a \<and> warnings a' = warnings a"
  using quiet_dataflow_loop [OF assms, of "[node_id (cfg_nodes a ! e)]"]
  by (auto simp: perform_dataflow_analysis_def)

text \<open>The entry node that \<open>build_cfg\<close> returns is such a node.\<close>

lemma build_cfg_entry:
  assumes "build_cfg statements a = (r, a')"
  shows "core a' = core a \<and> (\<forall>e. r = Some e \<longrightarrow> quiet (cfg_nodes a' ! e))"
proof (cases "statements = []")
  case True
  with assms show ?thesis by (simp add: build_cfg_def)
next
  case False
  obtain entry a1 where c1: "create_cfg_node ENTRY a = (entry, a1)"
    by (cases "create_cfg_node ENTRY a")
  obtain exit a2 where c2: "create_cfg_node EXIT a1 = (exit, a2)"
    by (cases "create_cfg_node EXIT a1")
  obtain body a3 where b3: "build_cfg_block statements exit a2 = (body, a3)"
    by (cases "build_cfg_block statements exit a2")
  from assms False c1 c2 b3 have r: "r = Some entry"
    and a': "a' = connect_cfg_nodes entry (node_or body exit) a3"
    by (simp_all add: build_cfg_def)
  note g1 = create_cfg_node_grows [OF c1, of exit]
  note g2 = create_cfg_node_grows [OF c2, of exit]
  from build_cfg_grows(2) [OF b3] have g3: "cfg_grows a2 exit a3"
    and k3: "\<And>k. body = Some k \<Longrightarrow> length (cfg_nodes a2) \<le> k" by auto
  have ne: "node_or body exit \<noteq> entry"
    using k3 g1 g2 by (auto simp: node_or_def split: option.splits)
  have g13: "cfg_grows a1 exit a3"
    using cfg_grows_trans [OF _ g3] g2 by blast
  have "node_or body exit = exit \<or> length (cfg_nodes a1) \<le> node_or body exit"
    using k3 g1 g2 by (auto simp: node_or_def split: option.splits)
  from cfg_grows_trans [OF g13 connect_cfg_nodes_grows this]
  have g: "cfg_grows a1 exit a'"
    unfolding a' .
  have q1: "quiet (cfg_nodes a1 ! entry)"
    using c1 by (auto simp: create_cfg_node_def quiet_def new_ControlFlowNode_def)
  have "stable (cfg_nodes a1 ! entry) (cfg_nodes a' ! entry)"
    using g g1 g2 by (simp add: cfg_grows_def)
  from stable_quiet [OF this q1] g g1 r show ?thesis by (simp add: cfg_grows_def)
qed

lemma perform_interprocedural_analysis_returns:
  "\<exists>a'. perform_interprocedural_analysis name body a = Returned a' \<and> core a' = core a"
proof -
  obtain func_entry a1 where c1: "create_cfg_node FUNCTION_CALL a = (func_entry, a1)"
    by (cases "create_cfg_node FUNCTION_CALL a")
  obtain func_exit a2 where c2: "create_cfg_node FUNCTION_RETURN a1 = (func_exit, a2)"
    by (cases "create_cfg_node FUNCTION_RETURN a1")
  define a3 where
    "a3 = a2\<lparr>function_entry_nodes := AList.update (lexeme name) func_entry (function_entry_nodes a2),
             function_exit_nodes := AList.update (lexeme name) func_exit (function_exit_nodes a2)\<rparr>"
  obtain body_node a4 where b4: "build_cfg_block body func_exit a3 = (body_node, a4)"
    by (cases "build_cfg_block body func_exit a3")
  define a5 where "a5 = connect_cfg_nodes func_entry (node_or body_node func_exit) a4"
  note g1 = create_cfg_node_grows [OF c1, of func_exit]
  note g2 = create_cfg_node_grows [OF c2, of func_exit]
  have g23: "cfg_grows a2 func_exit a3"
    by (simp add: a3_def cfg_grows_def core_def stable_def)
  from build_cfg_grows(2) [OF b4] have g4: "cfg_grows a3 func_exit a4"
    and k4: "\<And>k. body_node = Some k \<Longrightarrow> length (cfg_nodes a3) \<le> k" by auto
  have l3: "length (cfg_nodes a3) = length (cfg_nodes a2)"
    by (simp add: a3_def)
  have g14: "cfg_grows a1 func_exit a4"
    using cfg_grows_trans [OF cfg_grows_trans [OF _ g23] g4] g2 by blast
  have "node_or body_node func_exit = func_exit \<or> length (cfg_nodes a1) \<le> node_or body_node func_exit"
    using k4 g1 g2 l3 by (auto simp: node_or_def split: option.splits)
  from cfg_grows_trans [OF g14 connect_cfg_nodes_grows this]
  have g: "cfg_grows a1 func_exit a5"
    unfolding a5_def .
  have q1: "quiet (cfg_nodes a1 ! func_entry)"
    using c1 by (auto simp: create_cfg_node_def quiet_def new_ControlFlowNode_def)
  have "stable (cfg_nodes a1 ! func_entry) (cfg_nodes a5 ! func_entry)"
    using g g1 g2 by (simp add: cfg_grows_def)
  from quiet_perform_dataflow_analysis [OF stable_quiet [OF this q1]]
  obtain a6 where d: "perform_dataflow_analysis (Some func_entry) a5 = Returned a6"
    and c6: "core a6 = core a5" by blast
  have w: "core (foldl (\<lambda>b path. analyze_path_memory_safety path b) b paths) = core b" for b paths
    by (induction paths arbitrary: b) (simp_all add: analyze_path_memory_safety_def core_def)
  have "perform_interprocedural_analysis name body a =
          Returned (foldl (\<lambda>b path. analyze_path_memory_safety path b) a6
                      (enumerate_all_paths (cfg_nodes a6) func_entry func_exit))"
    using c1 c2 b4 d
    by (simp add: perform_interprocedural_analysis_def a3_def [symmetric] a5_def [symmetric]
                  and_then_def)
  moreover have "core a6 = core a"
    using c6 g g1 by (simp add: cfg_grows_def)
  ultimately show ?thesis using w by simp
qed

subsection \<open>No function of the analysis writes \<open>errors\<close>, and every one of them ends\<close>

text \<open>
  \<open>keeps_errors es r\<close>: the call whose outcome is \<open>r\<close> returned or threw, and left the
  analyzer with the list of errors \<open>es\<close>.
\<close>

definition keeps_errors :: "MemorySafetyError list \<Rightarrow> outcome \<Rightarrow> bool" where
  "keeps_errors es r =
     (case r of
        Returned a' \<Rightarrow> errors a' = es
      | Thrown e a' \<Rightarrow> errors a' = es
      | Diverged \<Rightarrow> False)"

lemma keeps_errors_simps [simp]:
  "keeps_errors es (Returned a') \<longleftrightarrow> errors a' = es"
  "keeps_errors es (Thrown e a') \<longleftrightarrow> errors a' = es"
  "keeps_errors es Diverged \<longleftrightarrow> False"
  by (simp_all add: keeps_errors_def)

lemma keeps_errors_and_then:
  assumes "keeps_errors es r"
    and "\<And>a1. r = Returned a1 \<Longrightarrow> errors a1 = es \<Longrightarrow> keeps_errors es (f a1)"
  shows "keeps_errors es (and_then r f)"
  using assms by (cases r) (auto simp: and_then_def)

lemma keeps_errors_exit_scope_loop:
  "errors a = es \<Longrightarrow> keeps_errors es (exit_scope_loop vars freed a)"
  by (induction vars freed a rule: exit_scope_loop.induct) (auto split: option.splits)

lemma keeps_errors_exit_scope: "errors a = es \<Longrightarrow> keeps_errors es (exit_scope a)"
  by (simp add: exit_scope_def Let_def keeps_errors_exit_scope_loop)

lemma errors_enter_scope [simp]: "errors (enter_scope a) = errors a"
  by (simp add: enter_scope_def)

lemma keeps_errors_analyze_free:
  "errors a = es \<Longrightarrow> keeps_errors es (analyze_free paren arguments a)"
  by (simp add: analyze_free_def update_pointer_states_on_free_def Let_def
           split: option.splits)

lemma keeps_errors_analyze_deref:
  "errors a = es \<Longrightarrow> keeps_errors es (analyze_deref paren arguments a)"
  by (auto simp: analyze_deref_def deref_allocation_check_def deref_pointer_check_def Let_def
                 and_then_def
           split: option.splits)

lemma keeps_errors_check_variable_access:
  "errors a = es \<Longrightarrow> keeps_errors es (check_variable_access name a)"
  by (simp add: check_variable_access_def Let_def split: option.splits)

lemma keeps_errors_analyze_expr:
  "errors a = es \<Longrightarrow> keeps_errors es (analyze_expr e a)"
  "errors a = es \<Longrightarrow> keeps_errors es (analyze_call callee paren arguments a)"
  "errors a = es \<Longrightarrow> keeps_errors es (analyze_assign name val a)"
  "errors a = es \<Longrightarrow> keeps_errors es (analyze_unary op r a)"
  "errors a = es \<Longrightarrow> keeps_errors es (analyze_exprs xs a)"
proof (induction e a and callee paren arguments a and name val a and op r a and xs a
       rule: analyze_expr_analyze_call_analyze_assign_analyze_unary_analyze_exprs.induct)
qed (auto simp: keeps_errors_check_variable_access keeps_errors_analyze_free
                keeps_errors_analyze_deref
          intro!: keeps_errors_and_then split: option.splits)

lemma keeps_errors_record_declaration:
  "errors a = es \<Longrightarrow> keeps_errors es (record_declaration name initializer a)"
  by (simp add: record_declaration_def Let_def split: option.splits prod.splits)

lemma keeps_errors_analyze_var_stmt:
  "errors a = es \<Longrightarrow> keeps_errors es (analyze_var_stmt name initializer a)"
  by (auto simp: analyze_var_stmt_def Let_def keeps_errors_analyze_expr
                 keeps_errors_record_declaration
           intro!: keeps_errors_and_then split: option.splits)

lemma keeps_errors_check_function_memory_leaks:
  "errors a = es \<Longrightarrow> keeps_errors es (check_function_memory_leaks func_name a)"
proof -
  have "errors a = es \<Longrightarrow> keeps_errors es (check_function_memory_leaks_loop func_name allocs a)"
    for allocs
    by (induction func_name allocs a rule: check_function_memory_leaks_loop.induct) simp_all
  then show "errors a = es \<Longrightarrow> ?thesis" by (simp add: check_function_memory_leaks_def)
qed

lemma keeps_errors_check_memory_leaks:
  "errors a = es \<Longrightarrow> keeps_errors es (check_memory_leaks a)"
proof -
  have "errors a = es \<Longrightarrow> keeps_errors es (check_memory_leaks_loop allocs a)" for allocs
    by (induction allocs a rule: check_memory_leaks_loop.induct) simp_all
  then show "errors a = es \<Longrightarrow> ?thesis" by (simp add: check_memory_leaks_def)
qed

lemma keeps_errors_perform_interprocedural_analysis:
  "errors a = es \<Longrightarrow> keeps_errors es (perform_interprocedural_analysis name body a)"
  using perform_interprocedural_analysis_returns [of name body a] by (auto simp: core_def)

lemma keeps_errors_analyze_stmt:
  "errors a = es \<Longrightarrow> keeps_errors es (analyze_stmt s a)"
  "errors a = es \<Longrightarrow> keeps_errors es (analyze_stmts ss a)"
  "errors a = es \<Longrightarrow> keeps_errors es (analyze_cases cs a)"
proof (induction s a and ss a and cs a rule: analyze_stmt_analyze_stmts_analyze_cases.induct)
qed (auto simp: keeps_errors_analyze_var_stmt keeps_errors_analyze_expr keeps_errors_exit_scope
                keeps_errors_check_function_memory_leaks
                keeps_errors_perform_interprocedural_analysis
          intro!: keeps_errors_and_then split: option.splits)

text \<open>The graph and the dataflow loop that end \<open>analyze\<close>.\<close>

lemma build_cfg_dataflow_returns:
  "\<exists>a'. (let (cfg_entry, a3) = build_cfg statements a in
            case cfg_entry of
              Some e \<Rightarrow> perform_dataflow_analysis (Some e) a3
            | None \<Rightarrow> Returned a3) = Returned a' \<and> core a' = core a"
proof -
  obtain r a3 where b: "build_cfg statements a = (r, a3)"
    by (cases "build_cfg statements a")
  from build_cfg_entry [OF b] have c: "core a3 = core a"
    and q: "\<And>e. r = Some e \<Longrightarrow> quiet (cfg_nodes a3 ! e)" by auto
  show ?thesis
  proof (cases r)
    case None
    with b c show ?thesis by simp
  next
    case (Some e)
    from quiet_perform_dataflow_analysis [OF q [OF Some]] b c Some show ?thesis by auto
  qed
qed

text \<open>
  What \<open>analyze\<close> returns, from the outcome of its loop over the statements and of
  \<open>check_memory_leaks\<close>.
\<close>

lemma analyze_statements_thrown:
  assumes "analyze_stmts statements (a\<lparr>errors := [], warnings := []\<rparr>) = Thrown e a1"
  shows "analyze statements a = Some (False, a1\<lparr>errors := [e]\<rparr>)"
proof -
  from keeps_errors_analyze_stmt(2) [of "a\<lparr>errors := [], warnings := []\<rparr>" "[]" statements] assms
  have "errors a1 = []" by simp
  with assms show ?thesis by (simp add: analyze_def and_then_def)
qed

lemma analyze_leak_thrown:
  assumes "analyze_stmts statements (a\<lparr>errors := [], warnings := []\<rparr>) = Returned a1"
    and "check_memory_leaks a1 = Thrown e a2"
  shows "analyze statements a = Some (False, a2\<lparr>errors := [e]\<rparr>)"
proof -
  from keeps_errors_analyze_stmt(2) [of "a\<lparr>errors := [], warnings := []\<rparr>" "[]" statements] assms
  have "errors a1 = []" by simp
  from keeps_errors_check_memory_leaks [OF this] assms have "errors a2 = []" by simp
  with assms show ?thesis by (simp add: analyze_def and_then_def)
qed

lemma analyze_returned:
  assumes "analyze_stmts statements (a\<lparr>errors := [], warnings := []\<rparr>) = Returned a1"
    and "check_memory_leaks a1 = Returned a2"
  shows "\<exists>a'. analyze statements a = Some (True, a') \<and> core a' = core a2 \<and> errors a' = []"
proof -
  from keeps_errors_analyze_stmt(2) [of "a\<lparr>errors := [], warnings := []\<rparr>" "[]" statements] assms
  have "errors a1 = []" by simp
  from keeps_errors_check_memory_leaks [OF this] assms have e2: "errors a2 = []" by simp
  from build_cfg_dataflow_returns [of statements a2]
  obtain a' where
    d: "(let (cfg_entry, a3) = build_cfg statements a2 in
         case cfg_entry of
           Some e \<Rightarrow> perform_dataflow_analysis (Some e) a3
         | None \<Rightarrow> Returned a3) = Returned a'"
    and c: "core a' = core a2" by blast
  from c e2 have "errors a' = []" by (simp add: core_def)
  with assms d c show ?thesis by (simp add: analyze_def and_then_def)
qed

lemma check_memory_leaks_ends: "check_memory_leaks a \<noteq> Diverged"
  using keeps_errors_check_memory_leaks [of a "errors a"] by auto

lemma analyze_stmts_ends: "analyze_stmts statements a \<noteq> Diverged"
  using keeps_errors_analyze_stmt(2) [of a "errors a" statements] by auto


text \<open>
  What a run of \<open>analyze\<close> shows: the value returned, the kinds of the errors and the
  states of the allocation records; and the states of the allocation records after a call
  that returned.
\<close>

definition verdict ::
  "(bool \<times> MemorySafetyAnalyzer) option \<Rightarrow> (bool \<times> string list \<times> (string \<times> MemoryState) list) option" where
  "verdict r = map_option (\<lambda>(ok, a). (ok, error_kinds a, allocation_states a)) r"

definition states_after :: "outcome \<Rightarrow> (string \<times> MemoryState) list option" where
  "states_after r = (case r of Returned a \<Rightarrow> Some (allocation_states a) | _ \<Rightarrow> None)"

lemma states_after_Some:
  "states_after r = Some xs \<longleftrightarrow> (\<exists>a. r = Returned a \<and> allocation_states a = xs)"
  by (cases r) (auto simp: states_after_def)


text \<open>A new analyzer has no errors and no warnings to clear.\<close>

lemma new_MemorySafetyAnalyzer_cleared:
  "new_MemorySafetyAnalyzer\<lparr>errors := [], warnings := []\<rparr> = new_MemorySafetyAnalyzer"
  by (simp add: new_MemorySafetyAnalyzer_def)

text \<open>The loop of \<open>analyze\<close> over a vector of statements, split at a position.\<close>

lemma analyze_stmts_append:
  "analyze_stmts (xs @ ys) a = and_then (analyze_stmts xs a) (analyze_stmts ys)"
proof (induction xs arbitrary: a)
  case Nil
  then show ?case by (simp add: and_then_def)
next
  case (Cons x xs)
  then show ?case by (cases "analyze_stmt x a") (simp_all add: and_then_def)
qed

text \<open>
  What a call that threw shows: the kind of the exception and the states of the
  allocation records at the throw.
\<close>

definition thrown_at :: "outcome \<Rightarrow> (string \<times> (string \<times> MemoryState) list) option" where
  "thrown_at r = (case r of Thrown e a \<Rightarrow> Some (error_type e, allocation_states a) | _ \<Rightarrow> None)"


subsection \<open>The scope stacks\<close>

text \<open>
  \<open>keeps_scopes n freed r\<close>: if the call whose outcome is \<open>r\<close> returned, the stack
  \<open>current_scope_vars\<close> has the height \<open>n\<close>, and \<open>freed_in_scope\<close> is the stack \<open>freed\<close>
  with names added to its top set.
\<close>

definition keeps_scopes :: "nat \<Rightarrow> string list list \<Rightarrow> outcome \<Rightarrow> bool" where
  "keeps_scopes n freed r =
     (case r of
        Returned a' \<Rightarrow>
          length (current_scope_vars a') = n \<and> tl (freed_in_scope a') = tl freed \<and>
          set (back_of freed) \<subseteq> set (back_of (freed_in_scope a'))
      | _ \<Rightarrow> True)"

lemma keeps_scopes_simps [simp]:
  "keeps_scopes n freed (Returned a') \<longleftrightarrow>
     length (current_scope_vars a') = n \<and> tl (freed_in_scope a') = tl freed \<and>
     set (back_of freed) \<subseteq> set (back_of (freed_in_scope a'))"
  "keeps_scopes n freed (Thrown e a')"
  "keeps_scopes n freed Diverged"
  by (simp_all add: keeps_scopes_def)



lemma tl_insert_back [simp]: "tl (insert_back name stack) = tl stack"
  by (cases stack) (simp_all add: insert_back_def)

lemma length_insert_back [simp]: "length (insert_back name stack) = length stack"
  by (cases stack) (simp_all add: insert_back_def)














section \<open>Claims about the constant folder\<close>







section \<open>Claims about the algebraic simplifier\<close>

text \<open>
  The expression \<open>f() * 0\<close> as the parser builds it: a call, which
  \<open>DeadCodeEliminator::has_side_effects\<close> counts as a side effect, times the literal 0.
\<close>

definition call_times_zero :: Expr where
  "call_times_zero =
     Binary (Call (name_expr IDENTIFIER ''f'' 1 1) (token RPAREN '')'' 1 3) [])
            (token STAR ''*'' 1 5)
            (number_expr ''0'' 0 1 7)"

text \<open>
  C3, as stated, fails: the claim says that a multiplication by zero whose other operand
  has side effects is left unchanged. \<open>simplify_expr\<close> rewrites \<open>f() * 0\<close> to the
  literal 0 and reports a modification; the call is dropped.
\<close>

theorem simplify_expr_drops_call_counterexample:
  "has_side_effects (Call (name_expr IDENTIFIER ''f'' 1 1) (token RPAREN '')'' 1 3) [])
   \<and> simplify_expr call_times_zero = (create_literal 0, True)
   \<and> fst (simplify_expr call_times_zero) \<noteq> call_times_zero"
  by (simp add: call_times_zero_def simplify_binary_def is_zero_def number_expr_def
        token_def create_literal_def)

text \<open>
  C3, amended: a multiplication whose left or right operand is the number literal 0 is
  rewritten to the literal 0 whatever the other operand is; \<open>simplify_expr\<close> makes no
  side-effect test.
\<close>

theorem simplify_expr_times_zero:
  assumes "type op = STAR"
  shows "simplify_expr (Binary x op (Literal (Number 0) t)) = (create_literal 0, True)
       \<and> simplify_expr (Binary (Literal (Number 0) t) op x) = (create_literal 0, True)"
  using assms
  by (auto simp: simplify_binary_def is_zero_def split: prod.splits)

theorem simplify_expr_times_zero_witness:
  "type (token STAR ''*'' 1 5) = STAR
   \<and> simplify_expr call_times_zero = (create_literal 0, True)"
proof -
  have h: "type (token STAR ''*'' 1 5) = STAR" by (simp add: token_def)
  have "simplify_expr call_times_zero = (create_literal 0, True)"
    unfolding call_times_zero_def number_expr_def
    by (rule conjunct1 [OF simplify_expr_times_zero [OF h]])
  with h show ?thesis by (intro conjI)
qed

section \<open>Claims about the optimizer pipeline\<close>

text \<open>
  The program \<open>fun add(a, b) { return a + b; } var r = add(2, 3); print r;\<close> as the
  parser builds it from that one line of source text.
\<close>

definition add_call :: Expr where
  "add_call =
     Call (name_expr IDENTIFIER ''add'' 1 41) (token RPAREN '')'' 1 49)
          [number_expr ''2'' 2 1 45, number_expr ''3'' 3 1 48]"

definition add_program :: "Stmt list" where
  "add_program =
     [FunctionStmt (token IDENTIFIER ''add'' 1 5)
        [token IDENTIFIER ''a'' 1 9, token IDENTIFIER ''b'' 1 12]
        [ReturnStmt (token RETURN ''return'' 1 17)
           (Some (Binary (name_expr IDENTIFIER ''a'' 1 24) (token PLUS ''+'' 1 26)
                         (name_expr IDENTIFIER ''b'' 1 28)))],
      VarStmt (token IDENTIFIER ''r'' 1 37) (Some add_call),
      PrintStmt (name_expr IDENTIFIER ''r'' 1 58) (token PRINT ''print'' 1 52)]"

text \<open>The literal a \<open>VarStmt\<close> is initialized with, if its initializer is a literal.\<close>

definition initializer_literal :: "Stmt \<Rightarrow> LiteralValue option" where
  "initializer_literal stmt =
     (case stmt of VarStmt name (Some e) \<Rightarrow> as_literal e | _ \<Rightarrow> None)"

lemma run_add_program: "run config pass add_program = (add_program, False)"
  by (cases pass)
     (simp_all add: add_program_def add_call_def ConstantFolder_run_def AlgebraicSimplifier_run_def
        DeadCodeEliminator_run_def CommonSubexpressionEliminator_run_def LoopOptimizer_run_def
        StrengthReducer_run_def FunctionInliner_run_def PeepholeOptimizer_run_def
        name_expr_def number_expr_def token_def literal_token_def
        simplify_binary_def is_zero_def is_one_def are_equal_variables_def as_variable_def
        should_keep_stmt_def try_unroll_loop_same inline_expr_def
        peephole_optimize_expr_def optimize_double_negation_def as_unary_def)

lemma run_passes_add_program: "run_passes config passes add_program = (add_program, False)"
  by (induction passes) (simp_all add: run_add_program)

lemma optimize_same_add_program: "optimize config add_program = add_program"
  unfolding optimize_def
  by (subst optimize_loop.simps) (simp add: run_passes_add_program max_iterations_def)

text \<open>
  C5, as stated, fails: with the default configuration (inlining enabled, threshold 10)
  the initializer of \<open>r\<close> in the optimizer's output is not a literal.
\<close>

theorem optimize_add_program_counterexample:
  "function_inlining default_config \<and> 2 \<le> inline_threshold default_config
   \<and> initializer_literal (optimize default_config add_program ! 1) = None
   \<and> initializer_literal (optimize default_config add_program ! 1) \<noteq> Some (Number 5)"
  unfolding optimize_same_add_program
  by (simp add: default_config_def initializer_literal_def add_program_def add_call_def)

text \<open>
  C5, amended: for that program the optimizer, run with any configuration (so also with
  inlining enabled and any threshold), returns the program unchanged: the initializer of
  \<open>r\<close> is still the call \<open>add(2, 3)\<close>.
\<close>

theorem optimize_add_program:
  "optimize config add_program = add_program
   \<and> optimize config add_program ! 1 = VarStmt (token IDENTIFIER ''r'' 1 37) (Some add_call)"
  unfolding optimize_same_add_program
  by (simp add: add_program_def)







section \<open>Claims about the parser\<close>











section \<open>Claims about the memory-safety analyzer\<close>

text \<open>
  C10. A call \<open>free(e)\<close> with one argument that is not a bare variable returns without an
  error and leaves the analyzer as it was: no allocation record and no pointer record
  changes (and neither does anything else).
\<close>

theorem analyze_call_free_of_non_variable:
  assumes "callee_name callee = Some ''free''" and "as_variable arg = None"
  shows "analyze_call callee paren [arg] a = Returned a"
  using assms by (simp add: analyze_free_def)

text \<open>
  Witness: \<open>free(p[0])\<close>, \<open>free(f())\<close> and \<open>free((p))\<close> on the analyzer that has recorded
  \<open>var p = malloc(100);\<close>.
\<close>

definition after_malloc_p :: MemorySafetyAnalyzer where
  "after_malloc_p =
     new_MemorySafetyAnalyzer
       \<lparr>allocations :=
          [(''p'', (new_AllocationInfo ''p'' (token IDENTIFIER ''p'' 1 5) ALLOCATED False)
                     \<lparr>size_expr := Some (Some (number_expr ''100'' 100 1 16))\<rparr>)],
        current_scope_vars := [[''p'']]\<rparr>"

lemma after_malloc_p_recorded:
  "analyze_stmt
     (VarStmt (token IDENTIFIER ''p'' 1 5)
        (Some (Call (name_expr MALLOC ''malloc'' 1 9) (token RPAREN '')'' 1 19)
                 [number_expr ''100'' 100 1 16])))
     new_MemorySafetyAnalyzer = Returned after_malloc_p"
  by (simp add: after_malloc_p_def new_MemorySafetyAnalyzer_def analyze_var_stmt_def
        record_declaration_def and_then_def insert_back_def as_call_def callee_name_def
        as_variable_def name_expr_def token_def is_allocator_def Let_def)

theorem analyze_call_free_of_non_variable_witness:
  "callee_name (name_expr FREE ''free'' 2 1) = Some ''free''
   \<and> as_variable (IndexGet (name_expr IDENTIFIER ''p'' 2 6) (number_expr ''0'' 0 2 8)
                     (token RBRACKET '']'' 2 9)) = None
   \<and> analyze_call (name_expr FREE ''free'' 2 1) (token RPAREN '')'' 2 10)
        [IndexGet (name_expr IDENTIFIER ''p'' 2 6) (number_expr ''0'' 0 2 8)
           (token RBRACKET '']'' 2 9)] after_malloc_p = Returned after_malloc_p
   \<and> analyze_expr (Call (name_expr FREE ''free'' 2 1) (token RPAREN '')'' 2 10)
        [Grouping (name_expr IDENTIFIER ''p'' 2 7)]) after_malloc_p = Returned after_malloc_p"
proof -
  have c: "callee_name (name_expr FREE ''free'' 2 1) = Some ''free''"
    by (simp add: callee_name_def name_expr_def as_variable_def token_def)
  have v1: "as_variable (IndexGet (name_expr IDENTIFIER ''p'' 2 6) (number_expr ''0'' 0 2 8)
                     (token RBRACKET '']'' 2 9)) = None"
    by (simp add: as_variable_def)
  have v2: "as_variable (Grouping (name_expr IDENTIFIER ''p'' 2 7)) = None"
    by (simp add: as_variable_def)
  from c v1 analyze_call_free_of_non_variable [OF c v1]
       analyze_call_free_of_non_variable [OF c v2]
  show ?thesis by (simp only: analyze_expr.simps)
qed

text \<open>
  C9. Every call of \<open>analyze\<close> returns, and the list \<open>errors\<close> of the analyzer then has at
  most one element; the value returned is \<open>true\<close> exactly when the list is empty. The one
  element is the first exception thrown: when the statements \<open>before\<close> are analyzed without
  an exception and the next statement \<open>s\<close> throws \<open>e\<close>, \<open>analyze\<close> returns \<open>false\<close> with
  the analyzer as it was at the throw (nothing of \<open>rest\<close> is analyzed) and with \<open>errors\<close>
  equal to \<open>[e]\<close>; when no statement throws and \<open>check_memory_leaks\<close> throws \<open>e\<close>, the same
  holds; and when neither throws, \<open>analyze\<close> returns \<open>true\<close> with no error. (The list is
  cleared at the start of the call, and its only writer is the \<open>catch\<close> clause of
  \<open>analyze\<close>.)
\<close>

theorem analyze_errors_at_most_one:
  "(\<exists>ok a'. analyze statements a = Some (ok, a') \<and> length (errors a') \<le> 1 \<and>
             (ok \<longleftrightarrow> errors a' = []))
   \<and> (analyze_stmts before (a\<lparr>errors := [], warnings := []\<rparr>) = Returned a1 \<and>
        analyze_stmt s a1 = Thrown e a2 \<longrightarrow>
        analyze (before @ s # rest) a = Some (False, a2\<lparr>errors := [e]\<rparr>))
   \<and> (analyze_stmts statements (a\<lparr>errors := [], warnings := []\<rparr>) = Returned a1 \<and>
        check_memory_leaks a1 = Thrown e a2 \<longrightarrow>
        analyze statements a = Some (False, a2\<lparr>errors := [e]\<rparr>))
   \<and> (analyze_stmts statements (a\<lparr>errors := [], warnings := []\<rparr>) = Returned a1 \<and>
        check_memory_leaks a1 = Returned a2 \<longrightarrow>
        (\<exists>a'. analyze statements a = Some (True, a') \<and> errors a' = [] \<and> core a' = core a2))"
proof (intro conjI impI)
  show "\<exists>ok a'. analyze statements a = Some (ok, a') \<and> length (errors a') \<le> 1 \<and>
                 (ok \<longleftrightarrow> errors a' = [])"
  proof (cases "analyze_stmts statements (a\<lparr>errors := [], warnings := []\<rparr>)")
    case (Returned b1)
    show ?thesis
    proof (cases "check_memory_leaks b1")
      case (Returned b2)
      from analyze_returned [OF \<open>analyze_stmts statements (a\<lparr>errors := [], warnings := []\<rparr>) = Returned b1\<close> this]
      show ?thesis by auto
    next
      case (Thrown err b2)
      from analyze_leak_thrown [OF \<open>analyze_stmts statements (a\<lparr>errors := [], warnings := []\<rparr>) = Returned b1\<close> this]
      show ?thesis by (intro exI [of _ False]) simp
    next
      case Diverged
      with check_memory_leaks_ends show ?thesis by simp
    qed
  next
    case (Thrown err b1)
    from analyze_statements_thrown [OF this] show ?thesis by (intro exI [of _ False]) simp
  next
    case Diverged
    with analyze_stmts_ends show ?thesis by simp
  qed
next
  assume "analyze_stmts before (a\<lparr>errors := [], warnings := []\<rparr>) = Returned a1 \<and>
          analyze_stmt s a1 = Thrown e a2"
  then have "analyze_stmts (before @ s # rest) (a\<lparr>errors := [], warnings := []\<rparr>) = Thrown e a2"
    by (simp add: analyze_stmts_append and_then_def)
  from analyze_statements_thrown [OF this]
  show "analyze (before @ s # rest) a = Some (False, a2\<lparr>errors := [e]\<rparr>)" .
next
  assume "analyze_stmts statements (a\<lparr>errors := [], warnings := []\<rparr>) = Returned a1 \<and>
          check_memory_leaks a1 = Thrown e a2"
  then show "analyze statements a = Some (False, a2\<lparr>errors := [e]\<rparr>)"
    using analyze_leak_thrown [of statements a a1 e a2] by simp
next
  assume "analyze_stmts statements (a\<lparr>errors := [], warnings := []\<rparr>) = Returned a1 \<and>
          check_memory_leaks a1 = Returned a2"
  then show "\<exists>a'. analyze statements a = Some (True, a') \<and> errors a' = [] \<and> core a' = core a2"
    using analyze_returned [of statements a a1 a2] by auto
qed

text \<open>
  Witness: \<open>var x = malloc(100); free(x); free(x); var y = malloc(1);\<close>. The first two
  statements are analyzed without an exception, the third throws the double free, and
  \<open>analyze\<close> records this one error; the leak of \<open>y\<close> is never looked at.
\<close>

definition double_free_before :: "Stmt list" where
  "double_free_before =
     [VarStmt (token IDENTIFIER ''x'' 1 5)
        (Some (Call (name_expr MALLOC ''malloc'' 1 9) (token RPAREN '')'' 1 19)
                 [number_expr ''100'' 100 1 16])),
      ExprStmt (Call (name_expr FREE ''free'' 1 22) (token RPAREN '')'' 1 28)
                  [name_expr IDENTIFIER ''x'' 1 27])]"

definition second_free :: Stmt where
  "second_free =
     ExprStmt (Call (name_expr FREE ''free'' 1 31) (token RPAREN '')'' 1 37)
                 [name_expr IDENTIFIER ''x'' 1 36])"

definition double_free_rest :: "Stmt list" where
  "double_free_rest =
     [VarStmt (token IDENTIFIER ''y'' 1 44)
        (Some (Call (name_expr MALLOC ''malloc'' 1 48) (token RPAREN '')'' 1 56)
                 [number_expr ''1'' 1 1 55]))]"

theorem analyze_errors_at_most_one_witness:
  "states_after (analyze_stmts double_free_before new_MemorySafetyAnalyzer) = Some [(''x'', FREED)]
   \<and> thrown_at (analyze_stmts (double_free_before @ [second_free]) new_MemorySafetyAnalyzer)
       = Some (''DOUBLE-FREE'', [(''x'', FREED)])
   \<and> verdict (analyze (double_free_before @ second_free # double_free_rest) new_MemorySafetyAnalyzer)
       = Some (False, [''DOUBLE-FREE''], [(''x'', FREED)])"
proof -
  have 1: "states_after (analyze_stmts double_free_before new_MemorySafetyAnalyzer)
             = Some [(''x'', FREED)]"
    by code_simp
  have 2: "thrown_at (analyze_stmts (double_free_before @ [second_free]) new_MemorySafetyAnalyzer)
             = Some (''DOUBLE-FREE'', [(''x'', FREED)])"
    by code_simp
  from 1 obtain a1
    where r: "analyze_stmts double_free_before new_MemorySafetyAnalyzer = Returned a1"
    by (auto simp: states_after_Some)
  from 2 r obtain e a2 where t: "analyze_stmt second_free a1 = Thrown e a2"
    and k: "error_type e = ''DOUBLE-FREE''" "allocation_states a2 = [(''x'', FREED)]"
    by (cases "analyze_stmt second_free a1")
       (auto simp: analyze_stmts_append and_then_def thrown_at_def)
  from analyze_errors_at_most_one
         [of _ new_MemorySafetyAnalyzer double_free_before a1 second_free e a2 double_free_rest]
       r t
  have "analyze (double_free_before @ second_free # double_free_rest) new_MemorySafetyAnalyzer
          = Some (False, a2\<lparr>errors := [e]\<rparr>)"
    by (simp add: new_MemorySafetyAnalyzer_cleared)
  with k have "verdict (analyze (double_free_before @ second_free # double_free_rest)
                 new_MemorySafetyAnalyzer) = Some (False, [''DOUBLE-FREE''], [(''x'', FREED)])"
    by (simp add: verdict_def error_kinds_def allocation_states_def)
  with 1 2 show ?thesis by simp
qed

subsection \<open>C1: a resource freed in one branch of an \<open>if\<close>\<close>


















subsection \<open>C2: the join of the dataflow at a node with several predecessors\<close>






text \<open>A node as \<open>build_cfg\<close> leaves it: its maps of allocations are empty.\<close>

definition node :: "NodeType \<Rightarrow> int \<Rightarrow> Stmt \<Rightarrow> Expr option \<Rightarrow> nat list \<Rightarrow> nat list \<Rightarrow> ControlFlowNode" where
  "node t i s e succs preds =
     (new_ControlFlowNode t i)\<lparr>statement := s, expression := e, successors := succs, predecessors := preds\<rparr>"



















end
